theory Spec2Isabelle
  imports Complex_Main
begin

section \<open>Values, errors and the file system\<close>

text \<open>
  A shallow embedding of the corpus classes of the texture package:
  \<^verbatim>\<open>nlp/tokenize.py\<close> (class Tokenize), \<^verbatim>\<open>corpora/bowcorpus.py\<close> (class BOWCorpus) and
  \<^verbatim>\<open>corpora/texts/chunkcorpus.py\<close> (class ChunkCorpus).

  The sources are Python 3 (\<^verbatim>\<open>list(range(...))\<close>, \<^verbatim>\<open>list(zip(...))\<close>, \<^verbatim>\<open>print((...))\<close>), so
  \<^verbatim>\<open>/\<close> is true division and yields a float also on two ints.  A float is modelled by
  the real number it denotes (rounding of the binary representation is not modelled);
  what matters for the code below is mostly whether a value is an int or a float.

  An object is a record of its attributes, and a method takes the object and returns
  the new one.  An exception is the left summand of the result.  What lies outside the
  repository is a parameter of the functions that use it: the sentence splitter of nltk,
  \<^verbatim>\<open>glob.glob\<close>, \<^verbatim>\<open>random.sample\<close> and the content of the files.

  The text of an item is either a string or a list of tokens; a filename is a string.
\<close>

named_theorems corpus_defs \<open>the defining equations of the model, for evaluation\<close>

type_synonym label = string

datatype content = Text string | Tokens "string list"

datatype num = PInt int | PFloat real

text \<open>
  The exceptions the modelled code can raise.  \<open>SystemExit\<close> is what \<^verbatim>\<open>sys.exit()\<close> raises.
  \<open>ConfigurationError\<close> is the failure the specification names; no statement of the
  sources raises it (they define no exception class at all).
\<close>

datatype error =
    SystemExit | IndexError | TypeError | ValueError | NameError | UnboundLocalError
  | IOError | ConfigurationError

text \<open>The file system: the content of each readable path.\<close>

type_synonym files = "string \<Rightarrow> string option"

text \<open>\<^verbatim>\<open>len(t)\<close> and iteration over \<^verbatim>\<open>t\<close>: a string is a sequence of one-character strings.\<close>

fun len :: "content \<Rightarrow> nat" where
  "len (Text s) = length s"
| "len (Tokens ts) = length ts"

fun elements :: "content \<Rightarrow> string list" where
  "elements (Text s) = map (\<lambda>c. [c]) s"
| "elements (Tokens ts) = ts"

section \<open>Tokenize (nlp/tokenize.py)\<close>

text \<open>
  Characters are bytes here; the character classes are those of ASCII.
  \<open>is_word_char\<close> is the regular expression class \<^verbatim>\<open>\w\<close>, \<open>is_space\<close> the white space
  \<^verbatim>\<open>str.split()\<close> splits at, \<open>lower_char\<close> is \<^verbatim>\<open>str.lower()\<close> on one character.
\<close>

definition is_word_char :: "char \<Rightarrow> bool" where [corpus_defs]:
  "is_word_char c =
     (let n = (of_char c :: nat)
      in (48 \<le> n \<and> n \<le> 57) \<or> (65 \<le> n \<and> n \<le> 90) \<or> n = 95 \<or> (97 \<le> n \<and> n \<le> 122))"

definition is_space :: "char \<Rightarrow> bool" where [corpus_defs]:
  "is_space c =
     (let n = (of_char c :: nat) in (9 \<le> n \<and> n \<le> 13) \<or> (28 \<le> n \<and> n \<le> 32))"

definition lower_char :: "char \<Rightarrow> char" where [corpus_defs]:
  "lower_char c =
     (case map_of (zip ''ABCDEFGHIJKLMNOPQRSTUVWXYZ'' ''abcdefghijklmnopqrstuvwxyz'') c of
        Some d \<Rightarrow> d
      | None \<Rightarrow> c)"

text \<open>
  \<^verbatim>\<open>re.compile('[^\w]+').sub(' ', sent)\<close>: every maximal run of characters outside
  \<^verbatim>\<open>\w\<close> becomes one space.  The flag says whether the previous character was part
  of such a run.
\<close>

primrec sub_run :: "bool \<Rightarrow> string \<Rightarrow> string" where
  "sub_run in_run [] = []"
| "sub_run in_run (c # cs) =
     (if is_word_char c then c # sub_run False cs
      else if in_run then sub_run True cs
      else CHR '' '' # sub_run True cs)"

definition regex_sub :: "string \<Rightarrow> string" where [corpus_defs]:
  "regex_sub sent = sub_run False sent"

text \<open>\<^verbatim>\<open>sent.split()\<close>: the maximal runs of characters that are not white space.\<close>

primrec split_from :: "string \<Rightarrow> string \<Rightarrow> string list" where
  "split_from cur [] = (if cur = [] then [] else [cur])"
| "split_from cur (c # cs) =
     (if is_space c then (if cur = [] then split_from [] cs else cur # split_from [] cs)
      else split_from (cur @ [c]) cs)"

definition split :: "string \<Rightarrow> string list" where [corpus_defs]:
  "split sent = split_from [] sent"

text \<open>
  The Tokenize object.  Its fields \<^verbatim>\<open>keep_sentences\<close> and \<^verbatim>\<open>ngrams\<close> are kept at their
  defaults (False and 1), which BOWCorpus uses; with other values \<^verbatim>\<open>tokenize\<close> returns
  nested lists or tuples.  A \<^verbatim>\<open>word_tokenizer\<close> is a callable when given (the variant
  that passes a regular expression string is not modelled).
\<close>

record Tokenize =
  sent_tokenizer :: "(string \<Rightarrow> string list) option"
  word_tokenizer :: "(string \<Rightarrow> string list) option"
  lowercase :: bool

definition Tokenize_init :: Tokenize where [corpus_defs]:
  "Tokenize_init = \<lparr>sent_tokenizer = None, word_tokenizer = None, lowercase = True\<rparr>"

text \<open>
  \<^verbatim>\<open>nltk.sent_tokenize\<close> belongs to a library outside the repository; it is the
  parameter \<open>nltk\<close> of the functions that reach it.
\<close>

definition sent_tokenize :: "(string \<Rightarrow> string list) \<Rightarrow> Tokenize \<Rightarrow> string \<Rightarrow> string list" where [corpus_defs]:
  "sent_tokenize nltk self txt =
     (case sent_tokenizer self of Some f \<Rightarrow> f txt | None \<Rightarrow> nltk txt)"

definition word_tokenize :: "Tokenize \<Rightarrow> string \<Rightarrow> string list" where [corpus_defs]:
  "word_tokenize self sent =
     (case word_tokenizer self of
        Some f \<Rightarrow> f sent
      | None \<Rightarrow>
          (let sent1 = regex_sub sent;
               sent2 = (if lowercase self then map lower_char sent1 else sent1)
           in split sent2))"

definition tokenize_text :: "(string \<Rightarrow> string list) \<Rightarrow> Tokenize \<Rightarrow> string \<Rightarrow> string list" where [corpus_defs]:
  "tokenize_text nltk self txt = concat (map (word_tokenize self) (sent_tokenize nltk self txt))"

section \<open>BOWCorpus (corpora/bowcorpus.py)\<close>

text \<open>
  The object's attributes.  \<open>texts\<close> is \<^verbatim>\<open>None\<close> until \<^verbatim>\<open>fit\<close> binds a source.  The three
  per-item lists \<^verbatim>\<open>in_memory\<close>, \<^verbatim>\<open>tokenized\<close> and \<^verbatim>\<open>n_tokens\<close> are created by \<^verbatim>\<open>fit\<close>
  (before that the source holds a placeholder in them, here the empty list).
  \<open>opened\<close> is not an attribute of the source: it logs, in order, the paths that
  \<^verbatim>\<open>open(...).read()\<close> has read, so that reads can be counted.
\<close>

record BOWCorpus =
  texts :: "(label \<times> content) list option"
  filenames :: bool
  in_memory :: "bool list"
  tokenized :: "bool option list"
  n_tokens :: "nat option list"
  tokenize :: "bool option"
  tokenizer :: "string \<Rightarrow> string list"
  stopwords :: "string list option"
  gowords :: "string list option"
  keep_in_memory :: bool
  opened :: "string list"

declare BOWCorpus.defs [corpus_defs]

definition BOWCorpus_init :: "(string \<Rightarrow> string list) \<Rightarrow> BOWCorpus" where [corpus_defs]:
  "BOWCorpus_init nltk =
     \<lparr>texts = None, filenames = False, in_memory = [], tokenized = [], n_tokens = [],
      tokenize = None, tokenizer = tokenize_text nltk Tokenize_init,
      stopwords = None, gowords = None, keep_in_memory = False, opened = []\<rparr>"

subsection \<open>fit\<close>

text \<open>
  The shapes of source that \<^verbatim>\<open>fit\<close> tells apart: a dictionary, a list of tuples, a list
  of strings, a single string (a path with wildcards).  Lists are homogeneous here (the
  source looks at the first element only), and the fourth shape of the docstring, another
  corpus object used as a generator, is not modelled.  \<^verbatim>\<open>glob.glob\<close> reads the file
  system; it is the parameter \<open>glob\<close>.
\<close>

datatype source =
    SrcDict "(label \<times> content) list"
  | SrcPairs "(label \<times> content) list"
  | SrcStrings "string list"
  | SrcPath string

fun src_len :: "source \<Rightarrow> nat" where
  "src_len (SrcDict d) = length d"
| "src_len (SrcPairs ps) = length ps"
| "src_len (SrcStrings fs) = length fs"
| "src_len (SrcPath p) = length p"

text \<open>\<^verbatim>\<open>isinstance(texts, str) or (isinstance(texts, list) and isinstance(texts[0], str))\<close>,
  evaluated on a source that is not empty.\<close>

fun strings_given :: "source \<Rightarrow> bool" where
  "strings_given (SrcPath p) = True"
| "strings_given (SrcStrings fs) = True"
| "strings_given (SrcPairs ps) = False"
| "strings_given (SrcDict d) = False"

text \<open>\<^verbatim>\<open>os.path.split(f)[1]\<close>: what follows the last slash.\<close>

definition basename :: "string \<Rightarrow> string" where [corpus_defs]:
  "basename f = rev (takeWhile (\<lambda>c. c \<noteq> CHR ''/'') (rev f))"

text \<open>The last part of \<^verbatim>\<open>fit\<close>: the per-item lists and \<^verbatim>\<open>self.texts\<close>.\<close>

definition bind_files :: "'a BOWCorpus_scheme \<Rightarrow> (label \<times> content) list \<Rightarrow> 'a BOWCorpus_scheme" where [corpus_defs]:
  "bind_files self ts =
     self\<lparr>filenames := True,
          in_memory := replicate (length ts) False,
          tokenized := replicate (length ts) (Some False),
          n_tokens := replicate (length ts) None,
          texts := Some ts\<rparr>"

definition bind_memory :: "'a BOWCorpus_scheme \<Rightarrow> (label \<times> content) list \<Rightarrow> 'a BOWCorpus_scheme" where [corpus_defs]:
  "bind_memory self ts =
     self\<lparr>in_memory := replicate (length ts) True,
          tokenized := replicate (length ts) None,
          n_tokens := replicate (length ts) None,
          texts := Some ts\<rparr>"

text \<open>
  \<^verbatim>\<open>fit(texts, filenames)\<close>.  In source order: a dictionary becomes a list of tuples;
  an empty source logs an error and calls \<^verbatim>\<open>sys.exit()\<close>; strings force
  \<^verbatim>\<open>filenames = True\<close>; with filenames a single string is expanded by \<^verbatim>\<open>glob\<close> and
  \<^verbatim>\<open>texts[0]\<close> is inspected (an IndexError on an empty expansion) to derive labels from
  bare filenames.
\<close>

definition fit ::
  "(string \<Rightarrow> string list) \<Rightarrow> 'a BOWCorpus_scheme \<Rightarrow> source \<Rightarrow> bool \<Rightarrow> error + 'a BOWCorpus_scheme" where [corpus_defs]:
  "fit glob self texts0 filenames0 =
     (let texts1 = (case texts0 of SrcDict d \<Rightarrow> SrcPairs d | _ \<Rightarrow> texts0) in
      if src_len texts1 = 0 then Inl SystemExit
      else
        let filenames1 = (if strings_given texts1 \<and> filenames0 = False then True else filenames0) in
        if filenames1 then
          (let texts2 = (case texts1 of SrcPath p \<Rightarrow> SrcStrings (glob p) | _ \<Rightarrow> texts1) in
           case texts2 of
             SrcStrings [] \<Rightarrow> Inl IndexError
           | SrcStrings (f # fs) \<Rightarrow> Inr (bind_files self (map (\<lambda>g. (basename g, Text g)) (f # fs)))
           | SrcPairs ps \<Rightarrow> Inr (bind_files self ps)
           | SrcDict d \<Rightarrow> Inr (bind_files self d)
           | SrcPath p \<Rightarrow> Inl TypeError)
        else
          (case texts1 of
             SrcPairs ps \<Rightarrow> Inr (bind_memory self ps)
           | SrcDict d \<Rightarrow> Inr (bind_memory self d)
           | SrcStrings fs \<Rightarrow> Inl SystemExit
           | SrcPath p \<Rightarrow> Inl TypeError))"

subsection \<open>set_params\<close>

text \<open>
  The keyword arguments; \<open>None\<close> is an argument that was not passed (the default
  \<^verbatim>\<open>None\<close> of the signature).
\<close>

record bow_args =
  a_tokenize :: "bool option"
  a_tokenizer :: "(string \<Rightarrow> string list) option"
  a_stopwords :: "string list option"
  a_gowords :: "string list option"
  a_keep_in_memory :: "bool option"

definition keep :: "'v \<Rightarrow> 'v option \<Rightarrow> 'v" where [corpus_defs]:
  "keep old arg = (case arg of None \<Rightarrow> old | Some v \<Rightarrow> v)"

definition BOW_set_params :: "'b bow_args_scheme \<Rightarrow> 'a BOWCorpus_scheme \<Rightarrow> 'a BOWCorpus_scheme" where [corpus_defs]:
  "BOW_set_params args self =
     self\<lparr>tokenize := (case a_tokenize args of None \<Rightarrow> tokenize self | Some b \<Rightarrow> Some b),
          tokenizer := keep (tokenizer self) (a_tokenizer args),
          stopwords := (case a_stopwords args of None \<Rightarrow> stopwords self | Some w \<Rightarrow> Some w),
          gowords := (case a_gowords args of None \<Rightarrow> gowords self | Some w \<Rightarrow> Some w),
          keep_in_memory := keep (keep_in_memory self) (a_keep_in_memory args)\<rparr>"

subsection \<open>process_text and tokenize_preprocess\<close>

text \<open>\<^verbatim>\<open>if self.stopwords:\<close> holds for a list that is neither \<^verbatim>\<open>None\<close> nor empty.\<close>

fun words_set :: "string list option \<Rightarrow> bool" where
  "words_set None = False"
| "words_set (Some ws) = (ws \<noteq> [])"

text \<open>
  \<^verbatim>\<open>tokenize_preprocess(i, l, t)\<close>: the tokenizer runs unless \<^verbatim>\<open>self.tokenized[i]\<close> is
  true (it takes a string: on a list its \<^verbatim>\<open>re.sub\<close> raises a TypeError); then the
  stopword filter, then the goword filter.
\<close>

definition tokenize_preprocess ::
  "'a BOWCorpus_scheme \<Rightarrow> nat \<Rightarrow> label \<Rightarrow> content \<Rightarrow> error + ('a BOWCorpus_scheme \<times> content)" where [corpus_defs]:
  "tokenize_preprocess self i l t =
     (if length (tokenized self) \<le> i then Inl IndexError
      else
        case (if tokenized self ! i \<noteq> Some True then
                (case t of
                   Tokens ts \<Rightarrow> Inl TypeError
                 | Text x \<Rightarrow>
                     (let ts = tokenizer self x in
                      if length (n_tokens self) \<le> i then Inl IndexError
                      else Inr (self\<lparr>n_tokens := (n_tokens self)[i := Some (length ts)]\<rparr>, Tokens ts)))
              else Inr (self, t)) of
          Inl e \<Rightarrow> Inl e
        | Inr (self1, t1) \<Rightarrow>
            (let t2 = (if words_set (stopwords self1)
                       then Tokens (filter (\<lambda>w. w \<notin> set (the (stopwords self1))) (elements t1))
                       else t1);
                 t3 = (if words_set (gowords self1)
                       then Tokens (filter (\<lambda>w. w \<in> set (the (gowords self1))) (elements t2))
                       else t2)
             in Inr (self1, t3)))"

text \<open>
  The four steps of \<^verbatim>\<open>process_text(i, l, t)\<close>.  Reading: whenever \<^verbatim>\<open>self.filenames\<close> is
  set, \<^verbatim>\<open>t\<close> is opened as a path (a list is no path: TypeError; an unreadable path:
  IOError).
\<close>

definition read_file :: "files \<Rightarrow> 'a BOWCorpus_scheme \<Rightarrow> content \<Rightarrow> error + ('a BOWCorpus_scheme \<times> content)" where [corpus_defs]:
  "read_file fs self t =
     (if filenames self then
        (case t of
           Tokens ts \<Rightarrow> Inl TypeError
         | Text path \<Rightarrow>
             (case fs path of
                None \<Rightarrow> Inl IOError
              | Some c \<Rightarrow> Inr (self\<lparr>opened := opened self @ [path]\<rparr>, Text c)))
      else Inr (self, t))"

definition deduce_tokenized :: "'a BOWCorpus_scheme \<Rightarrow> nat \<Rightarrow> content \<Rightarrow> error + 'a BOWCorpus_scheme" where [corpus_defs]:
  "deduce_tokenized self i t =
     (if length (tokenized self) \<le> i then Inl IndexError
      else if tokenized self ! i = None then
        (case t of
           Tokens ts \<Rightarrow>
             if length (n_tokens self) \<le> i then Inl IndexError
             else Inr (self\<lparr>tokenized := (tokenized self)[i := Some True],
                            n_tokens := (n_tokens self)[i := Some (length ts)]\<rparr>)
         | Text x \<Rightarrow> Inr (self\<lparr>tokenized := (tokenized self)[i := Some False]\<rparr>))
      else Inr self)"

text \<open>\<^verbatim>\<open>' '.join(t)\<close>\<close>

fun join :: "string list \<Rightarrow> string" where
  "join [] = []"
| "join [w] = w"
| "join (w # v # ws) = w @ CHR '' '' # join (v # ws)"

definition apply_tokenize ::
  "'a BOWCorpus_scheme \<Rightarrow> nat \<Rightarrow> label \<Rightarrow> content \<Rightarrow> error + ('a BOWCorpus_scheme \<times> content)" where [corpus_defs]:
  "apply_tokenize self i l t =
     (case tokenize self of
        Some True \<Rightarrow> tokenize_preprocess self i l t
      | None \<Rightarrow> Inr (self, t)
      | Some False \<Rightarrow>
          (if length (tokenized self) \<le> i then Inl IndexError
           else if tokenized self ! i = Some True then Inr (self, Text (join (elements t)))
           else Inr (self, t)))"

definition keep_text :: "'a BOWCorpus_scheme \<Rightarrow> nat \<Rightarrow> label \<Rightarrow> content \<Rightarrow> error + 'a BOWCorpus_scheme" where [corpus_defs]:
  "keep_text self i l t =
     (if keep_in_memory self then
        (if length (in_memory self) \<le> i then Inl IndexError
         else if \<not> in_memory self ! i then
           (case texts self of
              None \<Rightarrow> Inl TypeError
            | Some ts \<Rightarrow>
                if length ts \<le> i then Inl IndexError
                else Inr (self\<lparr>texts := Some (ts[i := (l, t)]),
                               in_memory := (in_memory self)[i := True]\<rparr>))
         else Inr self)
      else Inr self)"

definition process_text ::
  "files \<Rightarrow> 'a BOWCorpus_scheme \<Rightarrow> nat \<Rightarrow> label \<Rightarrow> content
     \<Rightarrow> error + ('a BOWCorpus_scheme \<times> label \<times> content)" where [corpus_defs]:
  "process_text fs self i l t =
     (case read_file fs self t of
        Inl e \<Rightarrow> Inl e
      | Inr (self1, t1) \<Rightarrow>
          (case deduce_tokenized self1 i t1 of
             Inl e \<Rightarrow> Inl e
           | Inr self2 \<Rightarrow>
               (case apply_tokenize self2 i l t1 of
                  Inl e \<Rightarrow> Inl e
                | Inr (self3, t3) \<Rightarrow>
                    (case keep_text self3 i l t3 of
                       Inl e \<Rightarrow> Inl e
                     | Inr self4 \<Rightarrow> Inr (self4, l, t3)))))"

subsection \<open>Access: indexing and iteration\<close>

text \<open>
  \<^verbatim>\<open>__getitem__(key)\<close> with an integer key, as far as the one pair its generator yields
  (keys are counted from the front here; slices are not modelled).
\<close>

definition getitem :: "files \<Rightarrow> 'a BOWCorpus_scheme \<Rightarrow> nat \<Rightarrow> error + ('a BOWCorpus_scheme \<times> label \<times> content)" where [corpus_defs]:
  "getitem fs self key =
     (case texts self of
        None \<Rightarrow> Inl TypeError
      | Some ts \<Rightarrow>
          if length ts \<le> key then Inl IndexError
          else process_text fs self key (fst (ts ! key)) (snd (ts ! key)))"

text \<open>
  A generator is modelled by what its consumer sees when it runs it to the end: the
  pairs yielded, in order, and the exception that ended it, if one did; together with
  the object as it is then.  A call that raises leaves no trace in the model: the
  attribute updates it made before the exception are dropped.
\<close>

type_synonym ('s, 'o) generated = "'s \<times> 'o list \<times> error option"

text \<open>
  \<^verbatim>\<open>__iter__\<close>: \<^verbatim>\<open>for i, (l, t) in enumerate(self.texts)\<close>.  The list object is the same
  during the loop (\<^verbatim>\<open>process_text\<close> replaces elements, never the list), so the loop runs
  over the positions from \<open>i\<close> and reads the element at each when it gets there; the
  first argument counts the positions left.
\<close>

primrec iter_from ::
  "nat \<Rightarrow> files \<Rightarrow> 'a BOWCorpus_scheme \<Rightarrow> nat \<Rightarrow> ('a BOWCorpus_scheme, label \<times> content) generated" where
  "iter_from 0 fs self i = (self, [], None)"
| "iter_from (Suc k) fs self i =
     (case texts self of
        None \<Rightarrow> (self, [], Some TypeError)
      | Some ts \<Rightarrow>
          if length ts \<le> i then (self, [], None)
          else
            (case process_text fs self i (fst (ts ! i)) (snd (ts ! i)) of
               Inl e \<Rightarrow> (self, [], Some e)
             | Inr (self1, lt) \<Rightarrow>
                 (case iter_from k fs self1 (Suc i) of
                    (self2, out, err) \<Rightarrow> (self2, lt # out, err))))"

definition iter :: "files \<Rightarrow> 'a BOWCorpus_scheme \<Rightarrow> ('a BOWCorpus_scheme, label \<times> content) generated" where [corpus_defs]:
  "iter fs self =
     (case texts self of
        None \<Rightarrow> (self, [], Some TypeError)
      | Some ts \<Rightarrow> iter_from (length ts) fs self 0)"

section \<open>ChunkCorpus (corpora/texts/chunkcorpus.py)\<close>

subsection \<open>Numbers, ranges and slices of Python\<close>

text \<open>
  A value that is \<^verbatim>\<open>None\<close>, a boolean or a number: \<^verbatim>\<open>self.roundedsize\<close> holds any of
  them.  \<open>truthy\<close> is the test an \<^verbatim>\<open>if\<close> or an \<^verbatim>\<open>or\<close> applies to a value.
\<close>

datatype pyval = PNone | PBool bool | PNum num

fun truthy_num :: "num \<Rightarrow> bool" where
  "truthy_num (PInt i) = (i \<noteq> 0)"
| "truthy_num (PFloat r) = (r \<noteq> 0)"

fun truthy :: "pyval \<Rightarrow> bool" where
  "truthy PNone = False"
| "truthy (PBool b) = b"
| "truthy (PNum n) = truthy_num n"

text \<open>The truth value of an argument: one that was not passed is \<^verbatim>\<open>None\<close>.\<close>

definition passed_true :: "('v \<Rightarrow> bool) \<Rightarrow> 'v option \<Rightarrow> bool" where [corpus_defs]:
  "passed_true tr arg = (case arg of None \<Rightarrow> False | Some v \<Rightarrow> tr v)"

text \<open>\<^verbatim>\<open>+\<close> and \<^verbatim>\<open>*\<close>: an int on two ints, a float otherwise.  \<^verbatim>\<open>/\<close>: always a float
  (the divisors below are not zero).  \<^verbatim>\<open>int(x)\<close> on a float rounds towards zero.\<close>

fun to_real :: "num \<Rightarrow> real" where
  "to_real (PInt i) = real_of_int i"
| "to_real (PFloat r) = r"

fun num_add :: "num \<Rightarrow> num \<Rightarrow> num" where
  "num_add (PInt a) (PInt b) = PInt (a + b)"
| "num_add a b = PFloat (to_real a + to_real b)"

fun num_mul :: "num \<Rightarrow> num \<Rightarrow> num" where
  "num_mul (PInt a) (PInt b) = PInt (a * b)"
| "num_mul a b = PFloat (to_real a * to_real b)"

definition true_div :: "int \<Rightarrow> int \<Rightarrow> num" where [corpus_defs]:
  "true_div a b = PFloat (real_of_int a / real_of_int b)"

definition py_int :: "real \<Rightarrow> int" where [corpus_defs]:
  "py_int x = (if 0 \<le> x then \<lfloor>x\<rfloor> else \<lceil>x\<rceil>)"

text \<open>\<^verbatim>\<open>list(range(0, stop, step))\<close>; a step of zero is a ValueError.\<close>

definition range_len :: "int \<Rightarrow> int \<Rightarrow> nat" where [corpus_defs]:
  "range_len stop step =
     nat (if 0 < step then (stop + step - 1) div step else (stop + step + 1) div step)"

definition range0 :: "int \<Rightarrow> int \<Rightarrow> error + int list" where [corpus_defs]:
  "range0 stop step =
     (if step = 0 then Inl ValueError
      else Inr (map (\<lambda>k. int k * step) [0..<range_len stop step]))"

text \<open>
  \<^verbatim>\<open>xs[a:b]\<close> with integer bounds: a negative bound counts from the end, and both are
  clipped to the sequence.  A float as a bound is a TypeError.
\<close>

definition clip :: "nat \<Rightarrow> int \<Rightarrow> nat" where [corpus_defs]:
  "clip n i = nat (if i < 0 then max 0 (int n + i) else min i (int n))"

definition slice :: "'e list \<Rightarrow> int \<Rightarrow> int \<Rightarrow> 'e list" where [corpus_defs]:
  "slice xs a b = take (clip (length xs) b - clip (length xs) a) (drop (clip (length xs) a) xs)"

fun slice_content :: "content \<Rightarrow> num \<Rightarrow> num \<Rightarrow> error + content" where
  "slice_content (Text s) (PInt a) (PInt b) = Inr (Text (slice s a b))"
| "slice_content (Tokens ts) (PInt a) (PInt b) = Inr (Tokens (slice ts a b))"
| "slice_content t a b = Inl TypeError"

text \<open>\<^verbatim>\<open>text * factor\<close>: the sequence repeated; a float as the factor is a TypeError.\<close>

fun seq_mul :: "content \<Rightarrow> num \<Rightarrow> error + content" where
  "seq_mul (Text s) (PInt k) = Inr (Text (concat (replicate (nat k) s)))"
| "seq_mul (Tokens ts) (PInt k) = Inr (Tokens (concat (replicate (nat k) ts)))"
| "seq_mul t (PFloat r) = Inl TypeError"

text \<open>\<^verbatim>\<open>'%s_%04d' % (label, n)\<close>: the decimal digits of \<open>n\<close>, filled with zeros to four.\<close>

fun decimal :: "nat \<Rightarrow> string" where
  "decimal n =
     (if n < 10 then [''0123456789'' ! n]
      else decimal (n div 10) @ [''0123456789'' ! (n mod 10)])"

declare decimal.simps [simp del, corpus_defs]

definition chunk_label :: "label \<Rightarrow> nat \<Rightarrow> label" where [corpus_defs]:
  "chunk_label l n =
     l @ ''_'' @ replicate (4 - length (decimal n)) (CHR ''0'') @ decimal n"

subsection \<open>The object and its parameters\<close>

text \<open>
  The attributes ChunkCorpus adds.  An entry of \<open>chunkindices\<close> is \<^verbatim>\<open>None\<close> or the list
  of (start, stop) tuples of an item; \<^verbatim>\<open>fit\<close> creates the list.
\<close>

record ChunkCorpus = BOWCorpus +
  chunksize :: num
  nchunks :: "int option"
  overlap :: num
  roundedsize :: pyval
  minsize :: bool
  upscale :: bool
  chunkindices :: "(num \<times> num) list option list"

declare ChunkCorpus.defs [corpus_defs]

record chunk_args = bow_args +
  a_chunksize :: "num option"
  a_nchunks :: "int option"
  a_overlap :: "num option"
  a_roundedsize :: "bool option"
  a_minsize :: "bool option"
  a_upscale :: "bool option"

definition no_args :: chunk_args where [corpus_defs]:
  "no_args =
     \<lparr>a_tokenize = None, a_tokenizer = None, a_stopwords = None, a_gowords = None,
      a_keep_in_memory = None, a_chunksize = None, a_nchunks = None, a_overlap = None,
      a_roundedsize = None, a_minsize = None, a_upscale = None\<rparr>"

text \<open>
  \<^verbatim>\<open>set_params\<close>.  The six assignments of lines 76 to 81, written as the source has
  them: the new \<^verbatim>\<open>self.roundedsize\<close> is the argument \<^verbatim>\<open>overlap\<close> whenever the argument
  \<^verbatim>\<open>roundedsize\<close> was passed.  Then the reset of line 84, which tests the truth of the
  arguments; \<^verbatim>\<open>len(self.texts)\<close> is a TypeError before \<^verbatim>\<open>fit\<close>.  Then the parent's
  \<^verbatim>\<open>set_params\<close> with the remaining keyword arguments.
\<close>

definition assign_params :: "chunk_args \<Rightarrow> 'a ChunkCorpus_scheme \<Rightarrow> 'a ChunkCorpus_scheme" where [corpus_defs]:
  "assign_params args self =
     self\<lparr>chunksize := keep (chunksize self) (a_chunksize args),
          nchunks := (case a_nchunks args of None \<Rightarrow> nchunks self | Some n \<Rightarrow> Some n),
          overlap := keep (overlap self) (a_overlap args),
          roundedsize :=
            (case a_roundedsize args of
               None \<Rightarrow> roundedsize self
             | Some b \<Rightarrow> (case a_overlap args of None \<Rightarrow> PNone | Some v \<Rightarrow> PNum v)),
          minsize := keep (minsize self) (a_minsize args),
          upscale := keep (upscale self) (a_upscale args)\<rparr>"

definition any_param_true :: "chunk_args \<Rightarrow> bool" where [corpus_defs]:
  "any_param_true args =
     (passed_true truthy_num (a_chunksize args) \<or> passed_true (\<lambda>n. n \<noteq> 0) (a_nchunks args)
      \<or> passed_true truthy_num (a_overlap args) \<or> passed_true id (a_roundedsize args)
      \<or> passed_true id (a_minsize args) \<or> passed_true id (a_upscale args))"

definition set_params :: "chunk_args \<Rightarrow> 'a ChunkCorpus_scheme \<Rightarrow> error + 'a ChunkCorpus_scheme" where [corpus_defs]:
  "set_params args self =
     (let self1 = assign_params args self in
      if any_param_true args then
        (case texts self1 of
           None \<Rightarrow> Inl TypeError
         | Some ts \<Rightarrow>
             Inr (BOW_set_params args (self1\<lparr>chunkindices := replicate (length ts) None\<rparr>)))
      else Inr (BOW_set_params args self1))"

text \<open>\<^verbatim>\<open>__init__\<close>: the parent's attributes, the defaults, then \<^verbatim>\<open>set_params(tokenize=True)\<close>.\<close>

definition ChunkCorpus_init :: "(string \<Rightarrow> string list) \<Rightarrow> error + ChunkCorpus" where [corpus_defs]:
  "ChunkCorpus_init nltk =
     set_params (no_args\<lparr>a_tokenize := Some True\<rparr>)
       (BOWCorpus.extend (BOWCorpus_init nltk)
          (ChunkCorpus.fields (PFloat 1) None (PInt 0) (PBool False) False False []))"

text \<open>\<^verbatim>\<open>fit\<close>: the parent's \<^verbatim>\<open>fit\<close>, then one empty entry of \<open>chunkindices\<close> for each text.\<close>

definition Chunk_fit ::
  "(string \<Rightarrow> string list) \<Rightarrow> 'a ChunkCorpus_scheme \<Rightarrow> source \<Rightarrow> bool \<Rightarrow> error + 'a ChunkCorpus_scheme" where [corpus_defs]:
  "Chunk_fit glob self src fnames =
     (case fit glob self src fnames of
        Inl e \<Rightarrow> Inl e
      | Inr self1 \<Rightarrow>
          (case texts self1 of
             None \<Rightarrow> Inl TypeError
           | Some ts \<Rightarrow> Inr (self1\<lparr>chunkindices := replicate (length ts) None\<rparr>)))"

subsection \<open>chunk_text\<close>

text \<open>
  Lines 118 to 132, for a text that is not empty: the chunk size (the name \<^verbatim>\<open>nchunks\<close>
  on line 121 is bound nowhere, neither in the function nor in the module: a NameError)
  and the overlap.
\<close>

definition resolve_chunksize :: "'a ChunkCorpus_scheme \<Rightarrow> nat \<Rightarrow> error + int" where [corpus_defs]:
  "resolve_chunksize self text_len =
     (if passed_true (\<lambda>n. n \<noteq> 0) (nchunks self) then Inl NameError
      else
        Inr (case chunksize self of
               PFloat f \<Rightarrow> py_int (real text_len * f)
             | PInt n \<Rightarrow> n))"

definition resolve_overlap :: "'a ChunkCorpus_scheme \<Rightarrow> int \<Rightarrow> int" where [corpus_defs]:
  "resolve_overlap self csize =
     (case overlap self of
        PFloat f \<Rightarrow> py_int (f * real_of_int csize)
      | PInt n \<Rightarrow> n)"

text \<open>
  Lines 139 to 145, the text shorter than a chunk.  \<^verbatim>\<open>random.sample\<close> is the parameter
  \<open>rnd\<close>; the factor is the result of a true division, a float.
\<close>

definition small_text ::
  "(content \<Rightarrow> int \<Rightarrow> content) \<Rightarrow> 'a ChunkCorpus_scheme \<Rightarrow> content \<Rightarrow> int \<Rightarrow> error + content option" where [corpus_defs]:
  "small_text rnd self t csize =
     (if minsize self then Inr None
      else if upscale self then
        (let factor = num_add (true_div csize (int (len t))) (PInt 1) in
         case seq_mul t factor of
           Inl e \<Rightarrow> Inl e
         | Inr population \<Rightarrow> Inr (Some (rnd population csize)))
      else Inr (Some t))"

text \<open>
  Lines 153 to 161, the leftover words spread over the chunks; \<^verbatim>\<open>stops[-1]\<close> is an
  IndexError on an empty list.  \<^verbatim>\<open>to_add\<close> is the result of a true division.
\<close>

definition spread_leftover :: "nat \<Rightarrow> int list \<Rightarrow> int list \<Rightarrow> error + (num list \<times> num list)" where [corpus_defs]:
  "spread_leftover text_len starts stops =
     (if stops = [] then Inl IndexError
      else
        (let n_leftover = int text_len - last stops;
             to_add = true_div n_leftover (int (length starts));
             starts1 = (if truthy_num to_add
                        then map (\<lambda>(i, s). num_add (PInt s) (num_mul (PInt (int i)) to_add))
                               (enumerate 0 starts)
                        else map PInt starts);
             stops1 = (if truthy_num to_add
                       then map (\<lambda>(i, s). num_add (PInt s) (num_mul (PInt (int i + 1)) to_add))
                              (enumerate 0 stops)
                       else map PInt stops);
             n_leftover1 = n_leftover mod int (length starts1);
             starts2 = (if n_leftover1 \<noteq> 0
                        then map (\<lambda>(i, s). if int i < n_leftover1 then num_add s (PInt (int i * 1))
                                            else num_add s (PInt n_leftover1))
                               (enumerate 0 starts1)
                        else starts1);
             stops2 = (if n_leftover1 \<noteq> 0
                       then map (\<lambda>(i, s). if int i < n_leftover1 then num_add s (PInt ((int i + 1) * 1))
                                           else num_add s (PInt n_leftover1))
                              (enumerate 0 stops1)
                       else stops1)
         in Inr (starts2, stops2)))"

text \<open>Lines 148 to 163, conventional chunking: the list that line 163 stores.\<close>

definition conventional :: "'a ChunkCorpus_scheme \<Rightarrow> nat \<Rightarrow> int \<Rightarrow> int \<Rightarrow> error + (num \<times> num) list" where [corpus_defs]:
  "conventional self text_len csize olap =
     (let step = (if olap \<noteq> 0 then csize - olap else csize) in
      case range0 (int text_len - csize + 1) step of
        Inl e \<Rightarrow> Inl e
      | Inr starts \<Rightarrow>
          (let stops = map (\<lambda>s. s + csize) starts in
           if truthy (roundedsize self) then
             (case spread_leftover text_len starts stops of
                Inl e \<Rightarrow> Inl e
              | Inr (starts2, stops2) \<Rightarrow> Inr (zip starts2 stops2))
           else Inr (zip (map PInt starts) (map PInt stops))))"

text \<open>
  Lines 114 to 163, run when the item has no entry in \<open>chunkindices\<close>: either the list of
  indices that is stored, or the value of the variable \<^verbatim>\<open>chunk\<close> of a short text (the
  entry stays \<^verbatim>\<open>None\<close>).  On an empty text \<^verbatim>\<open>chunksize\<close> is never assigned, and its first
  use (line 130 or line 135) is an UnboundLocalError.
\<close>

datatype computed = Indices "(num \<times> num) list" | Chunk "content option"

definition compute_chunks ::
  "(content \<Rightarrow> int \<Rightarrow> content) \<Rightarrow> 'a ChunkCorpus_scheme \<Rightarrow> content \<Rightarrow> error + computed" where [corpus_defs]:
  "compute_chunks rnd self t =
     (let text_len = len t in
      if text_len = 0 then Inl UnboundLocalError
      else
        (case resolve_chunksize self text_len of
           Inl e \<Rightarrow> Inl e
         | Inr csize \<Rightarrow>
             (let olap = resolve_overlap self csize in
              if int text_len < csize then
                (case small_text rnd self t csize of
                   Inl e \<Rightarrow> Inl e
                 | Inr c \<Rightarrow> Inr (Chunk c))
              else
                (case conventional self text_len csize olap of
                   Inl e \<Rightarrow> Inl e
                 | Inr idx \<Rightarrow> Inr (Indices idx)))))"

text \<open>
  Lines 170 to 173: the labelled slices, from the \<open>n\<close>-th on.  A chunk is a slice of the
  text, or \<^verbatim>\<open>None\<close>.
\<close>

primrec emit :: "label \<Rightarrow> content \<Rightarrow> nat \<Rightarrow> (num \<times> num) list \<Rightarrow> (label \<times> content option) list \<times> error option" where
  "emit l t n [] = ([], None)"
| "emit l t n (se # rest) =
     (case slice_content t (fst se) (snd se) of
        Inl e \<Rightarrow> ([], Some e)
      | Inr c \<Rightarrow>
          (case emit l t (Suc n) rest of
             (out, err) \<Rightarrow> ((chunk_label l n, Some c) # out, err)))"

text \<open>\<^verbatim>\<open>chunk_text(label, text, index)\<close>, a generator.\<close>

definition chunk_text ::
  "(content \<Rightarrow> int \<Rightarrow> content) \<Rightarrow> 'a ChunkCorpus_scheme \<Rightarrow> label \<Rightarrow> content \<Rightarrow> nat
     \<Rightarrow> ('a ChunkCorpus_scheme, label \<times> content option) generated" where [corpus_defs]:
  "chunk_text rnd self l t index =
     (if length (chunkindices self) \<le> index then (self, [], Some IndexError)
      else
        (case chunkindices self ! index of
           Some idx \<Rightarrow> (case emit l t 0 idx of (out, err) \<Rightarrow> (self, out, err))
         | None \<Rightarrow>
             (case compute_chunks rnd self t of
                Inl e \<Rightarrow> (self, [], Some e)
              | Inr (Chunk c) \<Rightarrow> (self, [(l, c)], None)
              | Inr (Indices idx) \<Rightarrow>
                  (case emit l t 0 idx of
                     (out, err) \<Rightarrow>
                       (self\<lparr>chunkindices := (chunkindices self)[index := Some idx]\<rparr>, out, err)))))"

text \<open>
  \<^verbatim>\<open>__iter__\<close>: each pair of the parent's \<^verbatim>\<open>__iter__\<close>, with its position, goes through
  \<^verbatim>\<open>chunk_text\<close>.  Both generators are lazy: item \<open>i + 1\<close> is processed after the chunks
  of item \<open>i\<close> have been yielded.  (Iteration is the access that is modelled;
  \<^verbatim>\<open>__getitem__\<close> of ChunkCorpus, which unpacks the parent's generator, is not.)
\<close>

primrec chunks_from ::
  "nat \<Rightarrow> (content \<Rightarrow> int \<Rightarrow> content) \<Rightarrow> files \<Rightarrow> 'a ChunkCorpus_scheme \<Rightarrow> nat
     \<Rightarrow> ('a ChunkCorpus_scheme, label \<times> content option) generated" where
  "chunks_from 0 rnd fs self i = (self, [], None)"
| "chunks_from (Suc k) rnd fs self i =
     (case texts self of
        None \<Rightarrow> (self, [], Some TypeError)
      | Some ts \<Rightarrow>
          if length ts \<le> i then (self, [], None)
          else
            (case process_text fs self i (fst (ts ! i)) (snd (ts ! i)) of
               Inl e \<Rightarrow> (self, [], Some e)
             | Inr (self1, l1, t1) \<Rightarrow>
                 (case chunk_text rnd self1 l1 t1 i of
                    (self2, out, Some e) \<Rightarrow> (self2, out, Some e)
                  | (self2, out, None) \<Rightarrow>
                      (case chunks_from k rnd fs self2 (Suc i) of
                         (self3, out3, err) \<Rightarrow> (self3, out @ out3, err)))))"

definition Chunk_iter ::
  "(content \<Rightarrow> int \<Rightarrow> content) \<Rightarrow> files \<Rightarrow> 'a ChunkCorpus_scheme
     \<Rightarrow> ('a ChunkCorpus_scheme, label \<times> content option) generated" where [corpus_defs]:
  "Chunk_iter rnd fs self =
     (case texts self of
        None \<Rightarrow> (self, [], Some TypeError)
      | Some ts \<Rightarrow> chunks_from (length ts) rnd fs self 0)"

text \<open>Running one step after another: an exception ends the run.\<close>

definition and_then :: "error + 'x \<Rightarrow> ('x \<Rightarrow> error + 'y) \<Rightarrow> error + 'y" where [corpus_defs]:
  "and_then r f = (case r of Inl e \<Rightarrow> Inl e | Inr x \<Rightarrow> f x)"

subsection \<open>Using the classes\<close>

text \<open>
  \<^verbatim>\<open>BOWCorpus().fit(texts, filenames)\<close> and \<^verbatim>\<open>ChunkCorpus().fit(texts, filenames)\<close>, and the
  three parts of what a generator has produced.
\<close>

definition new_BOWCorpus ::
  "(string \<Rightarrow> string list) \<Rightarrow> (string \<Rightarrow> string list) \<Rightarrow> source \<Rightarrow> bool \<Rightarrow> error + BOWCorpus" where [corpus_defs]:
  "new_BOWCorpus nltk glob src fnames = fit glob (BOWCorpus_init nltk) src fnames"

definition new_ChunkCorpus ::
  "(string \<Rightarrow> string list) \<Rightarrow> (string \<Rightarrow> string list) \<Rightarrow> source \<Rightarrow> bool \<Rightarrow> error + ChunkCorpus" where [corpus_defs]:
  "new_ChunkCorpus nltk glob src fnames =
     and_then (ChunkCorpus_init nltk) (\<lambda>c. Chunk_fit glob c src fnames)"

definition emitted :: "('s, 'o) generated \<Rightarrow> 'o list" where [corpus_defs]:
  "emitted g = fst (snd g)"

definition raised :: "('s, 'o) generated \<Rightarrow> error option" where [corpus_defs]:
  "raised g = snd (snd g)"

definition after :: "('s, 'o) generated \<Rightarrow> 's" where [corpus_defs]:
  "after g = fst g"

text \<open>
  The tokens of a list of emitted chunks, one chunk after the other; \<^verbatim>\<open>None\<close> has none.
\<close>

definition joined :: "(label \<times> content option) list \<Rightarrow> string list" where [corpus_defs]:
  "joined out = concat (map (\<lambda>p. case snd p of Some c \<Rightarrow> elements c | None \<Rightarrow> []) out)"

text \<open>
  A chunk made of tokens: a list of tokens, or the \<^verbatim>\<open>None\<close> that stands for a short text
  when \<^verbatim>\<open>minsize\<close> (the first argument) is set; never a string.
\<close>

fun is_tokens :: "content \<Rightarrow> bool" where
  "is_tokens (Tokens ts) = True"
| "is_tokens (Text s) = False"

definition token_chunk :: "bool \<Rightarrow> content option \<Rightarrow> bool" where
  "token_chunk ms ch = (case ch of None \<Rightarrow> ms | Some t \<Rightarrow> is_tokens t)"

text \<open>
  The objects a caller can reach who constructs a ChunkCorpus and then fits it, sets
  parameters and iterates, in any order and any number of times, and never passes the
  argument \<^verbatim>\<open>tokenize\<close> to \<^verbatim>\<open>set_params\<close>.
\<close>

inductive reach :: "ChunkCorpus \<Rightarrow> bool" where
  constructed: "ChunkCorpus_init nltk = Inr c \<Longrightarrow> reach c"
| fitted: "reach c \<Longrightarrow> Chunk_fit glob c src fnames = Inr c' \<Longrightarrow> reach c'"
| configured: "reach c \<Longrightarrow> a_tokenize args = None \<Longrightarrow> set_params args c = Inr c' \<Longrightarrow> reach c'"
| iterated: "reach c \<Longrightarrow> c' = after (Chunk_iter rnd fs c) \<Longrightarrow> reach c'"

text \<open>
  What holds of every such object: tokenization is on, no file-backed item is marked as
  tokenized, and an item in memory that is marked as tokenized is a list of tokens.
\<close>

definition tokens_known :: "'a BOWCorpus_scheme \<Rightarrow> bool" where
  "tokens_known c \<longleftrightarrow>
     tokenize c = Some True \<and>
     (\<forall>i < length (tokenized c). tokenized c ! i = Some True \<longrightarrow>
        \<not> filenames c \<and> (\<exists>ts. texts c = Some ts \<and> i < length ts \<and> is_tokens (snd (ts ! i))))"

section \<open>Properties\<close>

lemmas unfold_numerals = upt_rec eval_nat_numeral

subsection \<open>Iterating a BOWCorpus that leaves the texts alone\<close>

text \<open>
  A BOWCorpus fitted to a list of pairs, with \<^verbatim>\<open>tokenize\<close> left at \<^verbatim>\<open>None\<close>, yields these pairs
  in their order, and no exception.
\<close>

lemma process_text_unset:
  assumes "tokenize c = None" and "\<not> filenames c" and "\<not> keep_in_memory c"
    and "i < length (tokenized c)" and "length (n_tokens c) = length (tokenized c)"
  shows "\<exists>c'. process_text fs c i l t = Inr (c', l, t) \<and> tokenize c' = None \<and> \<not> filenames c'
           \<and> \<not> keep_in_memory c' \<and> texts c' = texts c
           \<and> length (tokenized c') = length (tokenized c) \<and> length (n_tokens c') = length (n_tokens c)"
  using assms
  by (cases t; cases "tokenized c ! i")
     (simp_all add: process_text_def read_file_def deduce_tokenized_def apply_tokenize_def keep_text_def)

lemma iter_from_unset:
  assumes "tokenize c = None" and "\<not> filenames c" and "\<not> keep_in_memory c"
    and "texts c = Some ts" and "length (tokenized c) = length ts" and "length (n_tokens c) = length ts"
    and "i + k = length ts"
  shows "emitted (iter_from k fs c i) = drop i ts \<and> raised (iter_from k fs c i) = None"
  using assms
proof (induction k arbitrary: c i)
  case 0
  then show ?case by (simp add: emitted_def raised_def)
next
  case (Suc k)
  have i: "i < length ts" using Suc.prems(7) by simp
  obtain c' where c': "process_text fs c i (fst (ts ! i)) (snd (ts ! i)) = Inr (c', fst (ts ! i), snd (ts ! i))"
    "tokenize c' = None" "\<not> filenames c'" "\<not> keep_in_memory c'" "texts c' = texts c"
    "length (tokenized c') = length (tokenized c)" "length (n_tokens c') = length (n_tokens c)"
    using process_text_unset[of c i fs "fst (ts ! i)" "snd (ts ! i)"] Suc.prems i by auto
  have IH: "emitted (iter_from k fs c' (Suc i)) = drop (Suc i) ts \<and> raised (iter_from k fs c' (Suc i)) = None"
    using Suc.IH[of c' "Suc i"] c' Suc.prems by simp
  obtain c2 out err where r: "iter_from k fs c' (Suc i) = (c2, out, err)"
    by (cases "iter_from k fs c' (Suc i)")
  have "drop i ts = ts ! i # drop (Suc i) ts" using i by (simp add: Cons_nth_drop_Suc)
  then show ?case
    using Suc.prems(4) i c'(1) r IH by (simp add: emitted_def raised_def)
qed

lemma iter_yields_the_pairs:
  assumes "new_BOWCorpus nltk glob (SrcPairs ps) False = Inr c"
  shows "emitted (iter fs c) = ps \<and> raised (iter fs c) = None"
proof -
  have c: "c = bind_memory (BOWCorpus_init nltk) ps"
    using assms by (auto simp: new_BOWCorpus_def fit_def Let_def split: if_splits)
  have "emitted (iter_from (length ps) fs c 0) = drop 0 ps \<and> raised (iter_from (length ps) fs c 0) = None"
    by (rule iter_from_unset) (simp_all add: c bind_memory_def BOWCorpus_init_def)
  then show ?thesis by (simp add: iter_def c bind_memory_def)
qed

subsection \<open>The sonnet line in chunks of four\<close>

text \<open>
  C5.  A ChunkCorpus is fitted to the one pair \<^verbatim>\<open>("a", "Shall I compare thee to a
  summer's day?")\<close>; the constructor has turned tokenization on and the tokenizer is the
  default one, which lowercases.  After \<^verbatim>\<open>set_params(chunksize=4, overlap=0)\<close> iterating
  yields first \<^verbatim>\<open>("a_0000", ["shall", "i", "compare", "thee"])\<close>; a second chunk follows and
  no exception ends the iteration.  The sentence splitter of nltk is assumed to return
  the line as one sentence.
\<close>

theorem sonnet_first_chunk:
  assumes "nltk ''Shall I compare thee to a summer's day?''
             = [''Shall I compare thee to a summer's day?'']"
  shows "and_then
           (new_ChunkCorpus nltk glob
              (SrcPairs [(''a'', Text ''Shall I compare thee to a summer's day?'')]) False)
           (\<lambda>c. and_then
              (set_params (no_args\<lparr>a_chunksize := Some (PInt 4), a_overlap := Some (PInt 0)\<rparr>) c)
              (\<lambda>c. Inr (emitted (Chunk_iter rnd fs c), raised (Chunk_iter rnd fs c))))
         = Inr ([(''a_0000'', Some (Tokens [''shall'', ''i'', ''compare'', ''thee''])),
                 (''a_0001'', Some (Tokens [''to'', ''a'', ''summer'', ''s'']))], None)"
  using assms by (simp add: corpus_defs unfold_numerals)

theorem sonnet_first_chunk_witness:
  "(\<lambda>t. [t]) ''Shall I compare thee to a summer's day?''
     = [''Shall I compare thee to a summer's day?'']
   \<and> and_then
         (new_ChunkCorpus (\<lambda>t. [t]) (\<lambda>p. [])
            (SrcPairs [(''a'', Text ''Shall I compare thee to a summer's day?'')]) False)
         (\<lambda>c. and_then
            (set_params (no_args\<lparr>a_chunksize := Some (PInt 4), a_overlap := Some (PInt 0)\<rparr>) c)
            (\<lambda>c. Inr (emitted (Chunk_iter (\<lambda>t k. t) Map.empty c),
                       raised (Chunk_iter (\<lambda>t k. t) Map.empty c))))
       = Inr ([(''a_0000'', Some (Tokens [''shall'', ''i'', ''compare'', ''thee''])),
               (''a_0001'', Some (Tokens [''to'', ''a'', ''summer'', ''s'']))], None)"
proof -
  have one: "(\<lambda>t. [t]) ''Shall I compare thee to a summer's day?''
               = [''Shall I compare thee to a summer's day?'']"
    by simp
  show ?thesis
    using one sonnet_first_chunk [of "\<lambda>t. [t]" "\<lambda>p. []" "\<lambda>t k. t" Map.empty, OF one]
    by blast
qed

subsection \<open>Stopwords and gowords\<close>

text \<open>
  C9.  A BOWCorpus holds the item with the tokens \<^verbatim>\<open>["rough", "winds", "the", "buds"]\<close>, with
  tokenization on, the stopwords \<^verbatim>\<open>["the"]\<close> and the gowords \<^verbatim>\<open>["the", "rough"]\<close>.  Reading
  the item gives exactly \<^verbatim>\<open>["rough"]\<close>: the stopword filter removes "the", the goword
  filter then keeps "rough" only.
\<close>

theorem stopwords_then_gowords:
  "and_then
     (new_BOWCorpus nltk glob (SrcPairs [(l, Tokens [''rough'', ''winds'', ''the'', ''buds''])]) False)
     (\<lambda>c. and_then
        (getitem fs
           (BOW_set_params
              \<lparr>a_tokenize = Some True, a_tokenizer = None, a_stopwords = Some [''the''],
               a_gowords = Some [''the'', ''rough''], a_keep_in_memory = None\<rparr> c) 0)
        (\<lambda>r. Inr (snd r)))
   = Inr (l, Tokens [''rough''])"
  by (simp add: corpus_defs)

text \<open>
  In general the result of \<^verbatim>\<open>tokenize_preprocess\<close> on a tokenized item is the goword
  filter applied to the result of the stopword filter.
\<close>

lemma tokenize_preprocess_filters:
  assumes "i < length (tokenized self)" and "tokenized self ! i = Some True"
    and "stopwords self = Some sw" and "sw \<noteq> []" and "gowords self = Some gw" and "gw \<noteq> []"
  shows "tokenize_preprocess self i l (Tokens ts)
           = Inr (self, Tokens (filter (\<lambda>w. w \<in> set gw) (filter (\<lambda>w. w \<notin> set sw) ts)))"
  using assms by (simp add: tokenize_preprocess_def)

subsection \<open>Binding an empty source\<close>

text \<open>
  C8, as the specification states it, fails: fitting an empty list ends in \<^verbatim>\<open>sys.exit()\<close>,
  that is in the exception SystemExit, not in a ConfigurationError.
\<close>

theorem empty_list_exits:
  "new_BOWCorpus (\<lambda>t. [t]) (\<lambda>p. []) (SrcPairs []) False = Inl SystemExit
   \<and> SystemExit \<noteq> ConfigurationError"
  by (simp add: corpus_defs)

text \<open>
  C8, amended.  Binding an empty list, an empty dictionary or an empty string fails at
  bind time: \<^verbatim>\<open>fit\<close> logs an error and raises SystemExit, whatever the flag \<^verbatim>\<open>filenames\<close> and
  the state of the object.
\<close>

theorem fit_empty_source:
  "fit glob self (SrcPairs []) fnames = Inl SystemExit
   \<and> fit glob self (SrcDict []) fnames = Inl SystemExit
   \<and> fit glob self (SrcStrings []) fnames = Inl SystemExit
   \<and> fit glob self (SrcPath []) fnames = Inl SystemExit"
  by (simp add: fit_def)

text \<open>
  A pattern that matches no file passes the emptiness test of line 80, which runs before
  the pattern is expanded, and ends in the IndexError of \<^verbatim>\<open>texts[0]\<close> on line 100.
\<close>

lemma fit_pattern_without_match:
  assumes "glob p = []" and "p \<noteq> []"
  shows "fit glob self (SrcPath p) fnames = Inl IndexError"
  using assms by (cases p) (simp_all add: fit_def)

subsection \<open>keep_in_memory on a corpus of files\<close>

text \<open>
  C2.  The corpus is \<^verbatim>\<open>BOWCorpus().fit([("a.txt", "d/a.txt")], filenames=True)\<close> with
  \<^verbatim>\<open>set_params(keep_in_memory=True)\<close>, and the file \<^verbatim>\<open>d/a.txt\<close> holds \<^verbatim>\<open>hello\<close>.  The first
  access to item 0 returns \<^verbatim>\<open>("a.txt", "hello")\<close> after one read, and stores the text in
  \<^verbatim>\<open>self.texts[0]\<close>.  The second access does not return the same content: \<^verbatim>\<open>process_text\<close>
  opens whatever \<^verbatim>\<open>self.texts[0]\<close> holds as long as \<^verbatim>\<open>self.filenames\<close> is set, so it takes
  the stored text \<^verbatim>\<open>hello\<close> for a path and raises an IOError.
\<close>

theorem kept_text_is_opened_again:
  "and_then (new_BOWCorpus nltk glob (SrcPairs [(''a.txt'', Text ''d/a.txt'')]) True)
     (\<lambda>c. and_then
        (getitem [''d/a.txt'' \<mapsto> ''hello'']
           (BOW_set_params
              \<lparr>a_tokenize = None, a_tokenizer = None, a_stopwords = None, a_gowords = None,
               a_keep_in_memory = Some True\<rparr> c) 0)
        (\<lambda>r1. Inr (snd r1, opened (fst r1),
                    and_then (getitem [''d/a.txt'' \<mapsto> ''hello''] (fst r1) 0) (\<lambda>r2. Inr (snd r2)))))
   = Inr ((''a.txt'', Text ''hello''), [''d/a.txt''], Inl IOError)"
  by (simp add: corpus_defs)

text \<open>
  With tokenization on as well (the parameters of the repository's test
  \<^verbatim>\<open>test_keep_in_memory\<close>) the stored value is a list of tokens, and opening it a TypeError.
\<close>

lemma kept_tokens_are_opened_again:
  "and_then (new_BOWCorpus (\<lambda>t. [t]) glob (SrcPairs [(''a.txt'', Text ''d/a.txt'')]) True)
     (\<lambda>c. and_then
        (getitem [''d/a.txt'' \<mapsto> ''hello'']
           (BOW_set_params
              \<lparr>a_tokenize = Some True, a_tokenizer = None, a_stopwords = None, a_gowords = None,
               a_keep_in_memory = Some True\<rparr> c) 0)
        (\<lambda>r1. Inr (snd r1, opened (fst r1),
                    and_then (getitem [''d/a.txt'' \<mapsto> ''hello''] (fst r1) 0) (\<lambda>r2. Inr (snd r2)))))
   = Inr ((''a.txt'', Tokens [''hello'']), [''d/a.txt''], Inl TypeError)"
  by (simp add: corpus_defs unfold_numerals)

text \<open>
  Where the stored text happens to name a file, the second access reads that file: two
  reads, and another content.
\<close>

lemma kept_text_names_a_file:
  "and_then (new_BOWCorpus nltk glob (SrcPairs [(''a'', Text ''p'')]) True)
     (\<lambda>c. and_then
        (getitem [''p'' \<mapsto> ''q'', ''q'' \<mapsto> ''z'']
           (BOW_set_params
              \<lparr>a_tokenize = None, a_tokenizer = None, a_stopwords = None, a_gowords = None,
               a_keep_in_memory = Some True\<rparr> c) 0)
        (\<lambda>r1. and_then (getitem [''p'' \<mapsto> ''q'', ''q'' \<mapsto> ''z''] (fst r1) 0)
           (\<lambda>r2. Inr (snd r1, snd r2, opened (fst r2)))))
   = Inr ((''a'', Text ''q''), (''a'', Text ''z''), [''p'', ''q''])"
  by (simp add: corpus_defs)

text \<open>
  The other half of C2 holds: without \<^verbatim>\<open>keep_in_memory\<close> an access that returns has read
  the file of the item once more and has left \<^verbatim>\<open>self.texts\<close> as it was, so the next access
  reads the file again.
\<close>

lemma without_keep_every_access_reads:
  assumes "filenames self" and "\<not> keep_in_memory self" and "getitem fs self i = Inr (self', l, t)"
  shows "\<exists>ts path. texts self = Some ts \<and> i < length ts \<and> snd (ts ! i) = Text path
           \<and> opened self' = opened self @ [path] \<and> texts self' = texts self
           \<and> filenames self' \<and> \<not> keep_in_memory self'"
  using assms
  by (auto simp: getitem_def process_text_def read_file_def deduce_tokenized_def
      apply_tokenize_def tokenize_preprocess_def keep_text_def Let_def
      split: option.splits content.splits if_splits sum.splits bool.splits)

subsection \<open>The reset of the chunk indices\<close>

text \<open>
  C3.  An item of six tokens is chunked with \<^verbatim>\<open>set_params(chunksize=4, overlap=2)\<close>;
  iterating stores the indices (0, 4), (2, 6).  Then \<^verbatim>\<open>set_params(overlap=0)\<close> changes the
  overlap to 0, but line 84 tests the truth of the arguments, 0 is false, and the indices
  stay: the next iteration serves the two chunks of the old overlap.
\<close>

theorem overlap_zero_keeps_old_indices:
  "and_then
     (new_ChunkCorpus nltk glob
        (SrcPairs [(''a'', Tokens [''a'', ''b'', ''c'', ''d'', ''e'', ''f''])]) False)
     (\<lambda>c. and_then
        (set_params (no_args\<lparr>a_chunksize := Some (PInt 4), a_overlap := Some (PInt 2)\<rparr>) c)
        (\<lambda>c1. and_then
           (set_params (no_args\<lparr>a_overlap := Some (PInt 0)\<rparr>) (after (Chunk_iter rnd fs c1)))
           (\<lambda>c2. Inr (overlap c2, chunkindices c2, emitted (Chunk_iter rnd fs c2)))))
   = Inr (PInt 0, [Some [(PInt 0, PInt 4), (PInt 2, PInt 6)]],
          [(''a_0000'', Some (Tokens [''a'', ''b'', ''c'', ''d''])),
           (''a_0001'', Some (Tokens [''c'', ''d'', ''e'', ''f'']))])"
  by (simp add: corpus_defs unfold_numerals)

text \<open>The same policy on a fresh object gives the one chunk that the policy describes.\<close>

lemma overlap_zero_on_fresh_object:
  "and_then
     (new_ChunkCorpus nltk glob
        (SrcPairs [(''a'', Tokens [''a'', ''b'', ''c'', ''d'', ''e'', ''f''])]) False)
     (\<lambda>c. and_then
        (set_params (no_args\<lparr>a_chunksize := Some (PInt 4), a_overlap := Some (PInt 0)\<rparr>) c)
        (\<lambda>c2. Inr (overlap c2, emitted (Chunk_iter rnd fs c2))))
   = Inr (PInt 0, [(''a_0000'', Some (Tokens [''a'', ''b'', ''c'', ''d'']))])"
  by (simp add: corpus_defs unfold_numerals)

text \<open>
  In general, a call whose arguments are all false or not passed leaves the indices
  alone, whatever it assigns.
\<close>

lemma set_params_without_true_argument:
  assumes "\<not> any_param_true args"
  shows "\<exists>c. set_params args self = Inr c \<and> chunkindices c = chunkindices self"
  using assms by (simp add: set_params_def BOW_set_params_def assign_params_def Let_def)

subsection \<open>nchunks\<close>

text \<open>
  C7.  An item of four tokens and \<^verbatim>\<open>set_params(nchunks=2)\<close>: iterating yields nothing and
  ends in the NameError of line 121, where the chunk size should have become 4 / 2.
\<close>

theorem nchunks_raises_name_error:
  "and_then
     (new_ChunkCorpus nltk glob (SrcPairs [(''a'', Tokens [''a'', ''b'', ''c'', ''d''])]) False)
     (\<lambda>c. and_then (set_params (no_args\<lparr>a_nchunks := Some 2\<rparr>) c)
        (\<lambda>c1. Inr (emitted (Chunk_iter rnd fs c1), raised (Chunk_iter rnd fs c1))))
   = Inr ([], Some NameError)"
  by (simp add: corpus_defs unfold_numerals)

text \<open>So it is for every text that is not empty and every number of chunks but 0.\<close>

lemma nchunks_never_resolved:
  assumes "nchunks self = Some n" and "n \<noteq> 0" and "0 < len t"
  shows "compute_chunks rnd self t = Inl NameError"
  using assms by (simp add: compute_chunks_def resolve_chunksize_def passed_true_def)

subsection \<open>roundedsize\<close>

text \<open>
  C1.  An item of nine tokens and \<^verbatim>\<open>set_params(chunksize=4, overlap=0, roundedsize=True)\<close>.
  Line 79 stores the argument \<^verbatim>\<open>overlap\<close>, 0, in \<^verbatim>\<open>self.roundedsize\<close>, so the leftover token
  is not spread: two chunks of four are emitted, and joined they are the first eight
  tokens, without the ninth.
\<close>

theorem rounded_chunks_lose_a_token:
  "and_then
     (new_ChunkCorpus nltk glob
        (SrcPairs [(''a'', Tokens [''shall'', ''i'', ''compare'', ''thee'', ''to'', ''a'',
                                  ''summer'', ''s'', ''day''])]) False)
     (\<lambda>c. and_then
        (set_params
           (no_args\<lparr>a_chunksize := Some (PInt 4), a_overlap := Some (PInt 0),
                    a_roundedsize := Some True\<rparr>) c)
        (\<lambda>c1. Inr (roundedsize c1, emitted (Chunk_iter rnd fs c1),
                    joined (emitted (Chunk_iter rnd fs c1)))))
   = Inr (PNum (PInt 0),
          [(''a_0000'', Some (Tokens [''shall'', ''i'', ''compare'', ''thee''])),
           (''a_0001'', Some (Tokens [''to'', ''a'', ''summer'', ''s'']))],
          [''shall'', ''i'', ''compare'', ''thee'', ''to'', ''a'', ''summer'', ''s''])"
  by (simp add: corpus_defs unfold_numerals)

text \<open>
  Whatever the argument \<^verbatim>\<open>roundedsize\<close> is, with an overlap of 0, or none, in the same call
  the stored value is false.
\<close>

lemma roundedsize_false_without_overlap:
  assumes "a_roundedsize args = Some b" and "a_overlap args = None \<or> a_overlap args = Some (PInt 0)"
  shows "\<not> truthy (roundedsize (assign_params args self))"
  using assms by (auto simp: assign_params_def)

text \<open>
  With an overlap that is not 0 the stored value is true and the leftover is spread, by
  a true division: the indices are floats, and the first slice raises a TypeError.
\<close>

lemma rounded_indices_are_floats:
  "and_then
     (new_ChunkCorpus nltk glob
        (SrcPairs [(''a'', Tokens [''shall'', ''i'', ''compare'', ''thee'', ''to'', ''a'',
                                  ''summer'', ''s'', ''day''])]) False)
     (\<lambda>c. and_then
        (set_params
           (no_args\<lparr>a_chunksize := Some (PInt 4), a_overlap := Some (PInt 1),
                    a_roundedsize := Some True\<rparr>) c)
        (\<lambda>c1. Inr (roundedsize c1, chunkindices (after (Chunk_iter rnd fs c1)),
                    emitted (Chunk_iter rnd fs c1), raised (Chunk_iter rnd fs c1))))
   = Inr (PNum (PInt 1), [Some [(PFloat 0, PFloat 5), (PFloat 4, PFloat 9)]], [], Some TypeError)"
  by (simp add: corpus_defs unfold_numerals)

text \<open>
  Without the spreading, and with an overlap of 0, the chunks of a text of at least one
  chunk are its consecutive pieces of that size: joined they are the longest prefix whose
  length is a multiple of the chunk size, and the text itself only if the chunk size
  divides its length.
\<close>

lemma slice_inside:
  assumes "a + c \<le> length xs"
  shows "slice xs (int a) (int (a + c)) = take c (drop a xs)"
  using assms by (simp add: slice_def clip_def min_def nat_int_add)

lemma emit_consecutive:
  assumes "(a + d) * c \<le> length ts"
  shows "\<exists>out. emit l (Tokens ts) j (map (\<lambda>k. (PInt (int (k * c)), PInt (int (k * c + c)))) [a..<a + d])
            = (out, None) \<and> length out = d \<and> joined out = take (d * c) (drop (a * c) ts)"
  using assms
proof (induction d arbitrary: a j)
  case 0
  then show ?case by (simp add: joined_def)
next
  case (Suc d)
  have le: "(Suc a + d) * c \<le> length ts" using Suc.prems by simp
  from Suc.IH[OF le, of "Suc j"] obtain out where
    out: "emit l (Tokens ts) (Suc j) (map (\<lambda>k. (PInt (int (k * c)), PInt (int (k * c + c)))) [Suc a..<Suc a + d]) = (out, None)"
      "length out = d" "joined out = take (d * c) (drop (Suc a * c) ts)"
    by blast
  have "a * c + c \<le> (a + Suc d) * c" by (simp add: algebra_simps)
  then have fit: "a * c + c \<le> length ts" using Suc.prems by linarith
  have sl: "slice ts (int (a * c)) (int (a * c + c)) = take c (drop (a * c) ts)"
    using fit by (rule slice_inside)
  have upt: "[a..<a + Suc d] = a # [Suc a..<Suc a + d]" by (simp add: upt_rec)
  have "take c (drop (a * c) ts) @ take (d * c) (drop (Suc a * c) ts) = take (Suc d * c) (drop (a * c) ts)"
    by (simp add: take_add add.commute)
  then show ?case
    using out sl unfolding upt by (simp add: joined_def)
qed

lemma zip_starts_stops:
  "zip (map PInt (map (\<lambda>k. int k * c) ks)) (map PInt (map (\<lambda>s. s + c) (map (\<lambda>k. int k * c) ks)))
     = map (\<lambda>k. (PInt (int k * c), PInt (int k * c + c))) ks"
  by (induction ks) simp_all

lemma range0_upwards:
  assumes "0 < c" and "c \<le> int n"
  shows "range0 (int n - c + 1) c = Inr (map (\<lambda>k. int k * c) [0..<n div nat c])"
proof -
  have "(int n - c + 1 + c - 1) div c = int n div c" by simp
  moreover have "nat (int n div c) = n div nat c"
    using assms by (simp add: nat_div_distrib)
  ultimately show ?thesis using assms by (simp add: range0_def range_len_def)
qed

lemma plain_chunks_cover_a_prefix:
  assumes "index < length (chunkindices self)" and "chunkindices self ! index = None"
    and "\<not> truthy (roundedsize self)" and "nchunks self = None"
    and "chunksize self = PInt (int c)" and "overlap self = PInt 0"
    and "0 < c" and "c \<le> length ts"
  shows "raised (chunk_text rnd self l (Tokens ts) index) = None
       \<and> length (emitted (chunk_text rnd self l (Tokens ts) index)) = length ts div c
       \<and> joined (emitted (chunk_text rnd self l (Tokens ts) index)) = take (length ts div c * c) ts"
proof -
  let ?m = "length ts div c"
  let ?idx = "map (\<lambda>k. (PInt (int (k * c)), PInt (int (k * c + c)))) [0..<0 + ?m]"
  have r: "range0 (int (length ts) - int c + 1) (int c) = Inr (map (\<lambda>k. int k * int c) [0..<?m])"
    using range0_upwards[of "int c" "length ts"] assms(7,8) by simp
  have conv: "conventional self (length ts) (int c) 0 = Inr ?idx"
    using assms(3) r zip_starts_stops[of "int c" "[0..<?m]"] by (simp add: conventional_def)
  have comp: "compute_chunks rnd self (Tokens ts) = Inr (Indices ?idx)"
    using assms(4,5,6,7,8) conv
    by (auto simp: compute_chunks_def resolve_chunksize_def resolve_overlap_def passed_true_def Let_def)
  have "(0 + ?m) * c \<le> length ts" by simp
  from emit_consecutive[OF this, of l 0] obtain out where
    out: "emit l (Tokens ts) 0 ?idx = (out, None)" "length out = ?m" "joined out = take (?m * c) (drop (0 * c) ts)"
    by blast
  show ?thesis
    using assms(1,2) comp out by (simp add: chunk_text_def raised_def emitted_def)
qed

lemma plain_chunks_lose_the_remainder:
  assumes "index < length (chunkindices self)" and "chunkindices self ! index = None"
    and "\<not> truthy (roundedsize self)" and "nchunks self = None"
    and "chunksize self = PInt (int c)" and "overlap self = PInt 0"
    and "0 < c" and "c \<le> length ts" and "\<not> c dvd length ts"
  shows "joined (emitted (chunk_text rnd self l (Tokens ts) index)) \<noteq> ts"
proof -
  have "length ts div c * c \<noteq> length ts"
    using assms(9) by (metis dvd_triv_right)
  moreover have "length ts div c * c \<le> length ts" by simp
  ultimately have "length ts div c * c < length ts" by linarith
  then have "length (take (length ts div c * c) ts) < length ts" by simp
  then have "take (length ts div c * c) ts \<noteq> ts" by (metis less_irrefl)
  then show ?thesis
    using plain_chunks_cover_a_prefix[OF assms(1-8), of rnd l] by simp
qed

subsection \<open>Texts shorter than a chunk\<close>

text \<open>
  C4, as the specification states it, fails: an item of three tokens with
  \<^verbatim>\<open>set_params(chunksize=10, minsize=True)\<close> is not left out; one pair is emitted for it,
  its label with \<^verbatim>\<open>None\<close> in the place of the tokens.
\<close>

theorem minsize_emits_none:
  "and_then
     (new_ChunkCorpus (\<lambda>t. [t]) (\<lambda>p. []) (SrcPairs [(''a'', Tokens [''x'', ''y'', ''z''])]) False)
     (\<lambda>c. and_then (set_params (no_args\<lparr>a_chunksize := Some (PInt 10), a_minsize := Some True\<rparr>) c)
        (\<lambda>c1. Inr (emitted (Chunk_iter (\<lambda>t k. t) Map.empty c1),
                    raised (Chunk_iter (\<lambda>t k. t) Map.empty c1))))
   = Inr ([(''a'', None)], None)"
  by (simp add: corpus_defs unfold_numerals)

text \<open>
  C4, amended.  For an item that has no stored indices, whose text is not empty and is
  shorter than the resolved chunk size: if \<^verbatim>\<open>minsize\<close> is set, exactly one pair is emitted,
  the label unchanged with \<^verbatim>\<open>None\<close> as its chunk; if neither \<^verbatim>\<open>minsize\<close> nor \<^verbatim>\<open>upscale\<close> is
  set, exactly one pair is emitted, the label unchanged with the unchanged text.  The
  object stays as it is.  (Nothing is said here of \<^verbatim>\<open>upscale\<close> without \<^verbatim>\<open>minsize\<close>.)
\<close>

theorem small_item_policy:
  assumes "index < length (chunkindices self)" and "chunkindices self ! index = None"
    and "0 < len t" and "resolve_chunksize self (len t) = Inr csize" and "int (len t) < csize"
    and "minsize self \<or> \<not> upscale self"
  shows "chunk_text rnd self l t index = (self, [(l, if minsize self then None else Some t)], None)"
  using assms by (auto simp: chunk_text_def compute_chunks_def small_text_def Let_def)

theorem small_item_policy_witness:
  "(case and_then
           (new_ChunkCorpus (\<lambda>t. [t]) (\<lambda>p. []) (SrcPairs [(''a'', Tokens [''x'', ''y'', ''z''])]) False)
           (set_params (no_args\<lparr>a_chunksize := Some (PInt 10), a_minsize := Some True\<rparr>)) of
      Inl e \<Rightarrow> False
    | Inr c \<Rightarrow> chunk_text (\<lambda>t k. t) c ''a'' (Tokens [''x'', ''y'', ''z'']) 0 = (c, [(''a'', None)], None))
   \<and> (case and_then
           (new_ChunkCorpus (\<lambda>t. [t]) (\<lambda>p. []) (SrcPairs [(''a'', Tokens [''x'', ''y'', ''z''])]) False)
           (set_params (no_args\<lparr>a_chunksize := Some (PInt 10)\<rparr>)) of
      Inl e \<Rightarrow> False
    | Inr c \<Rightarrow> chunk_text (\<lambda>t k. t) c ''a'' (Tokens [''x'', ''y'', ''z'']) 0
                = (c, [(''a'', Some (Tokens [''x'', ''y'', ''z'']))], None))"
proof -
  let ?t = "Tokens [''x'', ''y'', ''z'']"
  let ?new = "new_ChunkCorpus (\<lambda>t. [t]) (\<lambda>p. []) (SrcPairs [(''a'', ?t)]) False"
  have "\<exists>c. and_then ?new (set_params (no_args\<lparr>a_chunksize := Some (PInt 10), a_minsize := Some True\<rparr>)) = Inr c
          \<and> chunkindices c = [None] \<and> chunksize c = PInt 10 \<and> nchunks c = None \<and> minsize c"
    by (simp add: corpus_defs unfold_numerals)
  then obtain c where c: "and_then ?new (set_params (no_args\<lparr>a_chunksize := Some (PInt 10), a_minsize := Some True\<rparr>)) = Inr c"
    "chunkindices c = [None]" "chunksize c = PInt 10" "nchunks c = None" "minsize c"
    by blast
  have 1: "chunk_text (\<lambda>t k. t) c ''a'' ?t 0 = (c, [(''a'', if minsize c then None else Some ?t)], None)"
    by (rule small_item_policy [where csize = 10])
       (simp_all add: c resolve_chunksize_def passed_true_def)
  have "\<exists>d. and_then ?new (set_params (no_args\<lparr>a_chunksize := Some (PInt 10)\<rparr>)) = Inr d
          \<and> chunkindices d = [None] \<and> chunksize d = PInt 10 \<and> nchunks d = None \<and> \<not> minsize d \<and> \<not> upscale d"
    by (simp add: corpus_defs unfold_numerals)
  then obtain d where d: "and_then ?new (set_params (no_args\<lparr>a_chunksize := Some (PInt 10)\<rparr>)) = Inr d"
    "chunkindices d = [None]" "chunksize d = PInt 10" "nchunks d = None" "\<not> minsize d" "\<not> upscale d"
    by blast
  have 2: "chunk_text (\<lambda>t k. t) d ''a'' ?t 0 = (d, [(''a'', if minsize d then None else Some ?t)], None)"
    by (rule small_item_policy [where csize = 10])
       (simp_all add: d resolve_chunksize_def passed_true_def)
  show ?thesis using 1 2 c d by simp
qed

text \<open>
  With \<^verbatim>\<open>upscale\<close> and without \<^verbatim>\<open>minsize\<close> the factor of line 142 is a float, and the
  product \<^verbatim>\<open>text*factor\<close> of line 143 a TypeError: nothing is emitted.
\<close>

lemma upscale_raises_type_error:
  assumes "index < length (chunkindices self)" and "chunkindices self ! index = None"
    and "0 < len t" and "resolve_chunksize self (len t) = Inr csize" and "int (len t) < csize"
    and "\<not> minsize self" and "upscale self"
  shows "chunk_text rnd self l t index = (self, [], Some TypeError)"
  using assms
  by (cases t) (auto simp: chunk_text_def compute_chunks_def small_text_def Let_def true_div_def)

subsection \<open>An overlap that is not smaller than the chunk\<close>

text \<open>
  C6, as the specification states it, fails: five tokens with
  \<^verbatim>\<open>set_params(chunksize=2, overlap=3)\<close> raise nothing.  The range of starts is empty, the
  empty list of indices is stored, and the iteration ends without a chunk.
\<close>

theorem larger_overlap_is_no_failure:
  "and_then
     (new_ChunkCorpus (\<lambda>t. [t]) (\<lambda>p. [])
        (SrcPairs [(''a'', Tokens [''a'', ''b'', ''c'', ''d'', ''e''])]) False)
     (\<lambda>c. and_then (set_params (no_args\<lparr>a_chunksize := Some (PInt 2), a_overlap := Some (PInt 3)\<rparr>) c)
        (\<lambda>c1. Inr (emitted (Chunk_iter (\<lambda>t k. t) Map.empty c1),
                    raised (Chunk_iter (\<lambda>t k. t) Map.empty c1),
                    chunkindices (after (Chunk_iter (\<lambda>t k. t) Map.empty c1)))))
   = Inr ([], None, [Some []])"
  by (simp add: corpus_defs unfold_numerals)

lemma range0_downwards:
  assumes "step < 0" and "0 < stop"
  shows "range0 stop step = Inr []"
proof -
  have "(stop + step + 1) div step \<le> 0"
  proof (cases "0 \<le> stop + step + 1")
    case True
    then show ?thesis using assms(1) by (rule div_nonneg_neg_le0)
  next
    case False
    then have "stop + step + 1 \<le> 0" and "step < stop + step + 1" using assms by simp_all
    then have "(stop + step + 1) div step = 0" by (rule div_neg_neg_trivial)
    then show ?thesis by simp
  qed
  then show ?thesis using assms by (simp add: range0_def range_len_def)
qed

text \<open>
  C6, amended.  Let the text be not empty, the chunk size resolved (\<^verbatim>\<open>nchunks\<close> not set),
  and the resolved overlap at least the resolved chunk size.  If the text has at least
  as many tokens as a chunk, the computation of the indices raises a ValueError when
  overlap and chunk size are equal (a range with step 0); when the overlap is larger it
  raises an IndexError if \<^verbatim>\<open>self.roundedsize\<close> is true, and returns the empty list of indices
  otherwise.  In no case does it return a list of indices that is not empty.
\<close>

theorem overlap_not_below_chunksize:
  assumes "0 < len t" and "resolve_chunksize self (len t) = Inr csize"
    and "csize \<le> resolve_overlap self csize"
  shows "(csize \<le> int (len t) \<longrightarrow>
           compute_chunks rnd self t =
            (if resolve_overlap self csize = csize then Inl ValueError
             else if truthy (roundedsize self) then Inl IndexError
             else Inr (Indices [])))
       \<and> (\<forall>idx. compute_chunks rnd self t = Inr (Indices idx) \<longrightarrow> idx = [])"
proof -
  define olap where "olap = resolve_overlap self csize"
  define step where "step = (if olap \<noteq> 0 then csize - olap else csize)"
  have le: "csize \<le> olap" using assms(3) by (simp add: olap_def)
  have step0: "step = 0 \<longleftrightarrow> olap = csize" using le by (auto simp: step_def)
  have stepneg: "olap \<noteq> csize \<Longrightarrow> step < 0" using le by (auto simp: step_def)
  have main: "conventional self (len t) csize olap =
            (if olap = csize then Inl ValueError
             else if truthy (roundedsize self) then Inl IndexError
             else Inr [])" if c: "csize \<le> int (len t)"
  proof (cases "olap = csize")
    case True
    then have "step = 0" using step0 by simp
    then show ?thesis using True by (simp add: conventional_def step_def[symmetric] range0_def)
  next
    case False
    then have "step < 0" using stepneg by simp
    moreover have "0 < int (len t) - csize + 1" using c by simp
    ultimately have "range0 (int (len t) - csize + 1) step = Inr []" by (rule range0_downwards)
    then show ?thesis using False by (simp add: conventional_def step_def[symmetric] spread_leftover_def)
  qed
  show ?thesis
    using assms(1,2) main
    by (auto simp: compute_chunks_def Let_def olap_def[symmetric] split: sum.splits if_splits)
qed

theorem overlap_not_below_chunksize_witness:
  "(case and_then
           (new_ChunkCorpus (\<lambda>t. [t]) (\<lambda>p. [])
              (SrcPairs [(''a'', Tokens [''a'', ''b'', ''c'', ''d'', ''e''])]) False)
           (set_params (no_args\<lparr>a_chunksize := Some (PInt 2), a_overlap := Some (PInt 3)\<rparr>)) of
      Inl e \<Rightarrow> False
    | Inr c \<Rightarrow> compute_chunks (\<lambda>t k. t) c (Tokens [''a'', ''b'', ''c'', ''d'', ''e'']) = Inr (Indices []))
   \<and> (case and_then
           (new_ChunkCorpus (\<lambda>t. [t]) (\<lambda>p. [])
              (SrcPairs [(''a'', Tokens [''a'', ''b'', ''c'', ''d'', ''e''])]) False)
           (set_params (no_args\<lparr>a_chunksize := Some (PInt 2), a_overlap := Some (PInt 2)\<rparr>)) of
      Inl e \<Rightarrow> False
    | Inr c \<Rightarrow> compute_chunks (\<lambda>t k. t) c (Tokens [''a'', ''b'', ''c'', ''d'', ''e'']) = Inl ValueError)"
proof -
  let ?t = "Tokens [''a'', ''b'', ''c'', ''d'', ''e'']"
  let ?new = "new_ChunkCorpus (\<lambda>t. [t]) (\<lambda>p. []) (SrcPairs [(''a'', ?t)]) False"
  have "\<exists>c. and_then ?new (set_params (no_args\<lparr>a_chunksize := Some (PInt 2), a_overlap := Some (PInt 3)\<rparr>)) = Inr c
          \<and> chunksize c = PInt 2 \<and> overlap c = PInt 3 \<and> nchunks c = None \<and> roundedsize c = PBool False"
    by (simp add: corpus_defs unfold_numerals)
  then obtain c where c: "and_then ?new (set_params (no_args\<lparr>a_chunksize := Some (PInt 2), a_overlap := Some (PInt 3)\<rparr>)) = Inr c"
    "chunksize c = PInt 2" "overlap c = PInt 3" "nchunks c = None" "roundedsize c = PBool False"
    by blast
  have 1: "compute_chunks (\<lambda>t k. t) c ?t = Inr (Indices [])"
    using overlap_not_below_chunksize [of ?t c 2 "\<lambda>t k. t"]
    by (simp add: c resolve_chunksize_def resolve_overlap_def passed_true_def)
  have "\<exists>d. and_then ?new (set_params (no_args\<lparr>a_chunksize := Some (PInt 2), a_overlap := Some (PInt 2)\<rparr>)) = Inr d
          \<and> chunksize d = PInt 2 \<and> overlap d = PInt 2 \<and> nchunks d = None"
    by (simp add: corpus_defs unfold_numerals)
  then obtain d where d: "and_then ?new (set_params (no_args\<lparr>a_chunksize := Some (PInt 2), a_overlap := Some (PInt 2)\<rparr>)) = Inr d"
    "chunksize d = PInt 2" "overlap d = PInt 2" "nchunks d = None"
    by blast
  have 2: "compute_chunks (\<lambda>t k. t) d ?t = Inl ValueError"
    using overlap_not_below_chunksize [of ?t d 2 "\<lambda>t k. t"]
    by (simp add: d resolve_chunksize_def resolve_overlap_def passed_true_def)
  show ?thesis using 1 2 c d by simp
qed

subsection \<open>Tokenization is on in a ChunkCorpus\<close>

text \<open>
  The steps of \<^verbatim>\<open>process_text\<close>, one by one: what each leaves unchanged, and where a list
  of tokens comes from.
\<close>

lemma read_file_known:
  assumes "read_file fs c t = Inr (c1, t1)"
  shows "tokenize c1 = tokenize c \<and> tokenized c1 = tokenized c \<and> texts c1 = texts c \<and> filenames c1 = filenames c
     \<and> (if filenames c then \<not> is_tokens t1 else t1 = t)"
  using assms by (auto simp: read_file_def split: if_splits content.splits option.splits)

lemma deduce_known:
  assumes "deduce_tokenized c i t = Inr c1"
  shows "tokenize c1 = tokenize c \<and> texts c1 = texts c \<and> filenames c1 = filenames c
     \<and> i < length (tokenized c) \<and> length (tokenized c1) = length (tokenized c)
     \<and> (\<forall>j. j \<noteq> i \<longrightarrow> tokenized c1 ! j = tokenized c ! j)
     \<and> (tokenized c1 ! i = Some True \<longrightarrow> tokenized c ! i = Some True \<or> is_tokens t)"
  using assms by (auto simp: deduce_tokenized_def split: if_splits content.splits option.splits)

lemma preprocess_known:
  assumes "tokenize_preprocess c i l t = Inr (c1, t1)" and "tokenized c ! i = Some True \<longrightarrow> is_tokens t"
  shows "tokenize c1 = tokenize c \<and> texts c1 = texts c \<and> filenames c1 = filenames c
     \<and> tokenized c1 = tokenized c \<and> is_tokens t1"
  using assms
  by (cases t) (auto simp: tokenize_preprocess_def Let_def split: if_splits content.splits option.splits sum.splits)

lemma keep_text_known:
  assumes "keep_text c i l t = Inr c1"
  shows "tokenize c1 = tokenize c \<and> filenames c1 = filenames c \<and> tokenized c1 = tokenized c
     \<and> (texts c1 = texts c \<or> (\<exists>ts. texts c = Some ts \<and> i < length ts \<and> texts c1 = Some (ts[i := (l, t)])))"
  using assms by (auto simp: keep_text_def split: if_splits content.splits option.splits)

lemma process_text_known:
  assumes inv: "tokens_known c" and ts: "texts c = Some ts" and i: "i < length ts"
    and run: "process_text fs c i (fst (ts ! i)) (snd (ts ! i)) = Inr (c', l', t')"
  shows "is_tokens t' \<and> tokens_known c'"
proof -
  from run obtain c1 t1 c2 c3 where
    r: "read_file fs c (snd (ts ! i)) = Inr (c1, t1)" and
    d: "deduce_tokenized c1 i t1 = Inr c2" and
    a: "apply_tokenize c2 i (fst (ts ! i)) t1 = Inr (c3, t')" and
    k: "keep_text c3 i (fst (ts ! i)) t' = Inr c'"
    by (auto simp: process_text_def split: sum.splits prod.splits)
  note R = read_file_known[OF r] and D = deduce_known[OF d] and K = keep_text_known[OF k]
  have tok2: "tokenize c2 = Some True" using inv R D by (simp add: tokens_known_def)
  then have p: "tokenize_preprocess c2 i (fst (ts ! i)) t1 = Inr (c3, t')"
    using a by (simp add: apply_tokenize_def)
  have pre: "tokenized c2 ! i = Some True \<longrightarrow> is_tokens t1"
  proof
    assume "tokenized c2 ! i = Some True"
    then have "tokenized c ! i = Some True \<or> is_tokens t1" using D R by auto
    then show "is_tokens t1"
    proof
      assume "tokenized c ! i = Some True"
      then have "\<not> filenames c \<and> is_tokens (snd (ts ! i))"
        using inv D R ts by (auto simp: tokens_known_def)
      then show ?thesis using R by auto
    qed simp
  qed
  note P = preprocess_known[OF p pre]
  have tok': "is_tokens t'" using P by simp
  have every: "\<not> filenames c' \<and> (\<exists>vs. texts c' = Some vs \<and> j < length vs \<and> is_tokens (snd (vs ! j)))"
    if j: "j < length (tokenized c')" and tj: "tokenized c' ! j = Some True" for j
  proof -
    have eq: "tokenized c' = tokenized c2" "filenames c' = filenames c" using K P D R by simp_all
    have c2j: "tokenized c2 ! j = Some True" using tj eq by simp
    have base: "\<not> filenames c \<and> (\<exists>us. texts c3 = Some us \<and> j < length us \<and> is_tokens (snd (us ! j)))"
    proof (cases "j = i")
      case True
      have "tokenized c ! i = Some True \<or> is_tokens t1" using D R c2j True by auto
      then have "\<not> filenames c"
      proof
        assume "tokenized c ! i = Some True"
        then show ?thesis using inv D R by (auto simp: tokens_known_def)
      next
        assume "is_tokens t1" then show ?thesis using R by auto
      qed
      moreover then have "t1 = snd (ts ! i)" using R by auto
      moreover have "is_tokens t1" using pre c2j True by simp
      ultimately show ?thesis using True ts i P D R by auto
    next
      case False
      then have "tokenized c ! j = Some True" using c2j D R by auto
      moreover have "j < length (tokenized c)" using j eq D R by simp
      ultimately show ?thesis using inv P D R by (auto simp: tokens_known_def)
    qed
    then obtain us where us: "texts c3 = Some us" "j < length us" "is_tokens (snd (us ! j))" by blast
    from K have "texts c' = texts c3 \<or> (\<exists>ws. texts c3 = Some ws \<and> i < length ws \<and> texts c' = Some (ws[i := (fst (ts ! i), t')]))"
      by auto
    then have "\<exists>vs. texts c' = Some vs \<and> j < length vs \<and> is_tokens (snd (vs ! j))"
    proof
      assume "texts c' = texts c3" then show ?thesis using us by auto
    next
      assume "\<exists>ws. texts c3 = Some ws \<and> i < length ws \<and> texts c' = Some (ws[i := (fst (ts ! i), t')])"
      then show ?thesis using us tok' by (cases "j = i") auto
    qed
    then show ?thesis using base eq by simp
  qed
  have "tokenize c' = Some True" using K P tok2 by simp
  then have "tokens_known c'"
    unfolding tokens_known_def using every by blast
  then show ?thesis using tok' by simp
qed


lemma process_text_minsize:
  fixes c :: "'a ChunkCorpus_scheme"
  assumes "process_text fs c i l t = Inr (c', l', t')"
  shows "minsize c' = minsize c"
proof -
  from assms obtain c1 t1 c2 c3 where
    r: "read_file fs c t = Inr (c1, t1)" and
    d: "deduce_tokenized c1 i t1 = Inr c2" and
    a: "apply_tokenize c2 i l t1 = Inr (c3, t')" and
    k: "keep_text c3 i l t' = Inr c'"
    by (auto simp: process_text_def split: sum.splits prod.splits)
  have "minsize c1 = minsize c"
    using r by (auto simp: read_file_def split: if_splits content.splits option.splits)
  moreover have "minsize c2 = minsize c1"
    using d by (auto simp: deduce_tokenized_def split: if_splits content.splits option.splits)
  moreover have "minsize c3 = minsize c2"
    using a by (auto simp: apply_tokenize_def tokenize_preprocess_def Let_def
        split: if_splits content.splits option.splits bool.splits sum.splits)
  moreover have "minsize c' = minsize c3"
    using k by (auto simp: keep_text_def split: if_splits option.splits)
  ultimately show ?thesis by simp
qed

lemma emit_tokens:
  assumes "emit l (Tokens ts) n idx = (out, err)"
  shows "list_all (\<lambda>p. token_chunk ms (snd p)) out"
  using assms
proof (induction idx arbitrary: n out err)
  case Nil
  then show ?case by simp
next
  case (Cons se rest)
  show ?case
  proof (cases "slice_content (Tokens ts) (fst se) (snd se)")
    case (Inl e)
    then show ?thesis using Cons.prems by simp
  next
    case (Inr ch)
    then have ch: "is_tokens ch"
      by (cases "fst se"; cases "snd se") auto
    obtain out1 err1 where rest: "emit l (Tokens ts) (Suc n) rest = (out1, err1)"
      by (cases "emit l (Tokens ts) (Suc n) rest")
    then have "out = (chunk_label l n, Some ch) # out1" using Cons.prems Inr by simp
    moreover have "list_all (\<lambda>p. token_chunk ms (snd p)) out1" using Cons.IH rest by blast
    ultimately show ?thesis using ch by (simp add: token_chunk_def)
  qed
qed

lemma small_text_tokens:
  assumes "small_text rnd c t csize = Inr ch" and "is_tokens t"
  shows "token_chunk (minsize c) ch"
  using assms
  by (cases t) (auto simp: small_text_def token_chunk_def true_div_def Let_def split: if_splits)

lemma chunk_text_tokens:
  assumes "chunk_text rnd c l t i = (c', out, err)" and "is_tokens t"
  shows "list_all (\<lambda>p. token_chunk (minsize c) (snd p)) out
     \<and> tokenize c' = tokenize c \<and> tokenized c' = tokenized c \<and> filenames c' = filenames c
     \<and> texts c' = texts c \<and> minsize c' = minsize c"
proof -
  obtain ts where t: "t = Tokens ts" using assms(2) by (cases t) auto
  have small: "compute_chunks rnd c t = Inr (Chunk ch) \<Longrightarrow> token_chunk (minsize c) ch" for ch
    using small_text_tokens[of rnd c t _ ch] assms(2)
    by (auto simp: compute_chunks_def Let_def split: if_splits sum.splits)
  show ?thesis
    using assms(1) small emit_tokens[of l ts 0 _ _ _ "minsize c"]
    unfolding chunk_text_def t
    by (auto split: if_splits option.splits sum.splits computed.splits prod.splits)
qed

lemma tokens_known_cong:
  assumes "tokenize c' = tokenize c" "tokenized c' = tokenized c" "filenames c' = filenames c" "texts c' = texts c"
  shows "tokens_known c' = tokens_known c"
  using assms by (simp add: tokens_known_def)

lemma chunks_from_tokens:
  fixes c :: "'a ChunkCorpus_scheme"
  assumes "tokens_known c" and "chunks_from k rnd fs c i = (c', out, err)"
  shows "list_all (\<lambda>p. token_chunk (minsize c) (snd p)) out \<and> tokens_known c' \<and> minsize c' = minsize c"
  using assms
proof (induction k arbitrary: c i c' out err)
  case 0
  then show ?case by simp
next
  case (Suc k)
  show ?case
  proof (cases "texts c")
    case None
    then show ?thesis using Suc.prems by simp
  next
    case (Some ts)
    show ?thesis
    proof (cases "length ts \<le> i")
      case True
      then show ?thesis using Suc.prems Some by simp
    next
      case False
      show ?thesis
      proof (cases "process_text fs c i (fst (ts ! i)) (snd (ts ! i))")
        case (Inl e)
        then show ?thesis using Suc.prems Some False by simp
      next
        case (Inr r)
        obtain c1 l1 t1 where r: "r = (c1, l1, t1)" by (cases r)
        have p: "process_text fs c i (fst (ts ! i)) (snd (ts ! i)) = Inr (c1, l1, t1)"
          using Inr r by simp
        have k1: "is_tokens t1 \<and> tokens_known c1"
          using process_text_known[OF Suc.prems(1) Some _ p] False by simp
        have m1: "minsize c1 = minsize c" using process_text_minsize[OF p] .
        obtain c2 out2 err2 where ct: "chunk_text rnd c1 l1 t1 i = (c2, out2, err2)"
          by (cases "chunk_text rnd c1 l1 t1 i")
        note C = chunk_text_tokens[OF ct] 
        have k2: "tokens_known c2" using C k1 tokens_known_cong[of c2 c1] by simp
        have m2: "minsize c2 = minsize c" using C k1 m1 by simp
        have o2: "list_all (\<lambda>p. token_chunk (minsize c) (snd p)) out2" using C k1 m1 by simp
        show ?thesis
        proof (cases err2)
          case (Some e)
          then show ?thesis using Suc.prems(2) \<open>texts c = Some ts\<close> False p ct k2 m2 o2 by simp
        next
          case None
          obtain c3 out3 err3 where rest: "chunks_from k rnd fs c2 (Suc i) = (c3, out3, err3)"
            by (cases "chunks_from k rnd fs c2 (Suc i)")
          note IH = Suc.IH[OF k2 rest]
          show ?thesis using Suc.prems(2) \<open>texts c = Some ts\<close> False p ct None rest IH m2 o2 by auto
        qed
      qed
    qed
  qed
qed

lemma Chunk_iter_tokens:
  fixes c :: "'a ChunkCorpus_scheme"
  assumes "tokens_known c"
  shows "list_all (\<lambda>p. token_chunk (minsize c) (snd p)) (emitted (Chunk_iter rnd fs c))
     \<and> tokens_known (after (Chunk_iter rnd fs c))"
proof (cases "texts c")
  case None
  then show ?thesis using assms by (simp add: Chunk_iter_def emitted_def after_def)
next
  case (Some ts)
  obtain c' out err where r: "chunks_from (length ts) rnd fs c 0 = (c', out, err)"
    by (cases "chunks_from (length ts) rnd fs c 0")
  show ?thesis using chunks_from_tokens[OF assms r] Some r
    by (simp add: Chunk_iter_def emitted_def after_def)
qed

lemma init_known:
  assumes "ChunkCorpus_init nltk = Inr c"
  shows "tokens_known c"
  using assms
  by (auto simp: ChunkCorpus_init_def set_params_def any_param_true_def passed_true_def no_args_def
      assign_params_def BOW_set_params_def BOWCorpus_init_def tokens_known_def keep_def
      BOWCorpus.defs ChunkCorpus.defs)

lemma bind_known:
  assumes "tokenize c = Some True"
  shows "tokens_known (bind_files c ts)" and "tokens_known (bind_memory c ts)"
  using assms by (simp_all add: tokens_known_def bind_files_def bind_memory_def)

lemma fit_binds:
  assumes "fit glob c src fnames = Inr c1"
  shows "\<exists>ts. c1 = bind_files c ts \<or> c1 = bind_memory c ts"
  using assms
  by (auto simp: fit_def Let_def split: if_splits source.splits list.splits)

lemma fit_known:
  assumes "tokenize c = Some True" and "Chunk_fit glob c src fnames = Inr c'"
  shows "tokens_known c'"
proof -
  obtain c1 where f: "fit glob c src fnames = Inr c1" and
    c': "tokenize c' = tokenize c1 \<and> tokenized c' = tokenized c1 \<and> filenames c' = filenames c1 \<and> texts c' = texts c1"
    using assms(2) by (auto simp: Chunk_fit_def split: sum.splits option.splits)
  have "tokens_known c1"
    using fit_binds[OF f] bind_known[OF assms(1)] by auto
  then show ?thesis using c' tokens_known_cong[of c' c1] by simp
qed

lemma set_params_known:
  assumes "tokens_known c" and "a_tokenize args = None" and "set_params args c = Inr c'"
  shows "tokens_known c'"
  using assms
  by (auto simp: set_params_def tokens_known_def assign_params_def BOW_set_params_def Let_def
      split: if_splits option.splits)

lemma reach_known: "reach c \<Longrightarrow> tokens_known c"
proof (induction rule: reach.induct)
  case (constructed nltk c)
  then show ?case by (rule init_known)
next
  case (fitted c glob src fnames c')
  then show ?case using fit_known[of c glob src fnames c'] by (simp add: tokens_known_def)
next
  case (configured c args c')
  then show ?case using set_params_known by blast
next
  case (iterated c c' rnd fs)
  then show ?case using Chunk_iter_tokens[of c rnd fs] by simp
qed

text \<open>
  C10.  The constructor of ChunkCorpus leaves \<^verbatim>\<open>self.tokenize\<close> set to \<^verbatim>\<open>True\<close>.  On every
  object that is reached from it without passing \<^verbatim>\<open>tokenize\<close> to \<^verbatim>\<open>set_params\<close>, tokenization
  is still on; every chunk that iterating emits is a list of tokens (or the \<^verbatim>\<open>None\<close> of a
  short text under \<^verbatim>\<open>minsize\<close>), never a string; and every item that \<^verbatim>\<open>process_text\<close> returns
  to the chunking is a list of tokens.  (A tokenizer, the default one or one that the
  caller sets, returns a list of tokens: that is its type here.)
\<close>

theorem chunk_engine_serves_tokens:
  "(\<exists>c0. ChunkCorpus_init nltk = Inr c0 \<and> tokenize c0 = Some True)
   \<and> (reach c \<longrightarrow>
        tokenize c = Some True
        \<and> list_all (\<lambda>p. token_chunk (minsize c) (snd p)) (emitted (Chunk_iter rnd fs c))
        \<and> (\<forall>ts i c' l' t'. texts c = Some ts \<and> i < length ts
              \<and> process_text fs c i (fst (ts ! i)) (snd (ts ! i)) = Inr (c', l', t')
              \<longrightarrow> is_tokens t'))"
proof (intro conjI impI)
  show "\<exists>c0. ChunkCorpus_init nltk = Inr c0 \<and> tokenize c0 = Some True"
    by (simp add: ChunkCorpus_init_def set_params_def any_param_true_def passed_true_def no_args_def
      assign_params_def BOW_set_params_def)
next
  assume r: "reach c"
  then have k: "tokens_known c" by (rule reach_known)
  then show "tokenize c = Some True" by (simp add: tokens_known_def)
  show "list_all (\<lambda>p. token_chunk (minsize c) (snd p)) (emitted (Chunk_iter rnd fs c))"
    using Chunk_iter_tokens[OF k] by simp
  show "\<forall>ts i c' l' t'. texts c = Some ts \<and> i < length ts
              \<and> process_text fs c i (fst (ts ! i)) (snd (ts ! i)) = Inr (c', l', t')
              \<longrightarrow> is_tokens t'"
    using process_text_known[OF k] by blast
qed

theorem chunk_engine_serves_tokens_witness:
  "(case and_then
           (new_ChunkCorpus (\<lambda>t. [t]) (\<lambda>p. [])
              (SrcPairs [(''a'', Text ''Shall I compare thee to a summer's day?'')]) False)
           (set_params (no_args\<lparr>a_chunksize := Some (PInt 4)\<rparr>)) of
      Inl e \<Rightarrow> False
    | Inr c \<Rightarrow>
        reach c \<and> tokenize c = Some True
        \<and> emitted (Chunk_iter (\<lambda>t k. t) Map.empty c)
            = [(''a_0000'', Some (Tokens [''shall'', ''i'', ''compare'', ''thee''])),
               (''a_0001'', Some (Tokens [''to'', ''a'', ''summer'', ''s'']))]
        \<and> list_all (\<lambda>p. token_chunk (minsize c) (snd p)) (emitted (Chunk_iter (\<lambda>t k. t) Map.empty c)))"
proof -
  let ?src = "SrcPairs [(''a'', Text ''Shall I compare thee to a summer's day?'')]"
  let ?args = "no_args\<lparr>a_chunksize := Some (PInt 4)\<rparr>"
  have "\<exists>c0 c1 c. ChunkCorpus_init (\<lambda>t. [t]) = Inr c0 \<and> Chunk_fit (\<lambda>p. []) c0 ?src False = Inr c1
          \<and> set_params ?args c1 = Inr c
          \<and> emitted (Chunk_iter (\<lambda>t k. t) Map.empty c)
            = [(''a_0000'', Some (Tokens [''shall'', ''i'', ''compare'', ''thee''])),
               (''a_0001'', Some (Tokens [''to'', ''a'', ''summer'', ''s'']))]"
    by (simp add: corpus_defs unfold_numerals)
  then obtain c0 c1 c where
    c0: "ChunkCorpus_init (\<lambda>t. [t]) = Inr c0" and
    c1: "Chunk_fit (\<lambda>p. []) c0 ?src False = Inr c1" and
    c: "set_params ?args c1 = Inr c" and
    out: "emitted (Chunk_iter (\<lambda>t k. t) Map.empty c)
            = [(''a_0000'', Some (Tokens [''shall'', ''i'', ''compare'', ''thee''])),
               (''a_0001'', Some (Tokens [''to'', ''a'', ''summer'', ''s'']))]"
    by blast
  have "reach c0" using c0 by (rule reach.constructed)
  then have "reach c1" using c1 by (rule reach.fitted)
  then have r: "reach c" using _ c by (rule reach.configured) (simp add: no_args_def)
  have "tokenize c = Some True
        \<and> list_all (\<lambda>p. token_chunk (minsize c) (snd p)) (emitted (Chunk_iter (\<lambda>t k. t) Map.empty c))"
    using chunk_engine_serves_tokens [of "\<lambda>t. [t]" c "\<lambda>t k. t" Map.empty] r by blast
  then show ?thesis
    using r out c0 c1 c by (simp add: new_ChunkCorpus_def and_then_def)
qed

end
